theory Spec2Isabelle
  imports Main "HOL-Library.Word" "HOL-Library.Monad_Syntax"
begin

unbundle bit_operations_syntax

section \<open>Shared memory, device registers and the observable trace\<close>

type_synonym byte = "8 word"
type_synonym u32 = "32 word"
type_synonym u64 = "64 word"

text \<open>A C++ \<open>int\<close>: 32 bits, read as two's complement with \<open>sint\<close>.\<close>

type_synonym s32 = "32 word"

text \<open>
  The buffer \<open>mem\<close> handed to \<open>run_bench\<close> is addressed by byte offset from its base
  (\<open>base[24]\<close>, \<open>base + 25\<close>, ...). The 64-bit accesses of the source are unaligned
  (\<open>base + 25\<close>, \<open>base + 33\<close>, \<open>base + 41\<close>), so the memory is modelled byte by byte;
  a 64-bit store puts the least significant byte first, as the x86-64 hosts of the
  platform do.
\<close>

type_synonym memory = "nat \<Rightarrow> byte"

definition store64 :: "memory \<Rightarrow> nat \<Rightarrow> u64 \<Rightarrow> memory" where
  "store64 m off v =
     m(off := ucast v,
       off + 1 := ucast (drop_bit 8 v),
       off + 2 := ucast (drop_bit 16 v),
       off + 3 := ucast (drop_bit 24 v),
       off + 4 := ucast (drop_bit 32 v),
       off + 5 := ucast (drop_bit 40 v),
       off + 6 := ucast (drop_bit 48 v),
       off + 7 := ucast (drop_bit 56 v))"

definition load64 :: "memory \<Rightarrow> nat \<Rightarrow> u64" where
  "load64 m off =
     ucast (m off)
     OR push_bit 8 (ucast (m (off + 1)))
     OR push_bit 16 (ucast (m (off + 2)))
     OR push_bit 24 (ucast (m (off + 3)))
     OR push_bit 32 (ucast (m (off + 4)))
     OR push_bit 40 (ucast (m (off + 5)))
     OR push_bit 48 (ucast (m (off + 6)))
     OR push_bit 56 (ucast (m (off + 7)))"

text \<open>
  Everything the host program does that the outside can observe, in program order:
  register accesses through \<open>setCSR\<close>/\<open>getCSR\<close>, volatile accesses to the buffer,
  sleeps (in nanoseconds), console lines (the text and the numbers printed; one event
  per output statement, recorded when the statement has finished), buffer requests
  (\<open>getMem\<close>: the size asked for and the pointer returned) and, for the AES
  host program, \<open>ioSwitch\<close> and \<open>invoke\<close>.
\<close>

datatype event =
    SetCSR u64 u32
  | GetCSR u32 u64
  | Store8 nat byte
  | Store64 nat u64
  | Load64 nat u64
  | Sleep nat
  | Print string "int list"
  | GetMem nat u64
  | IoSwitch u32
  | Invoke u64 u32

text \<open>
  The accelerator is an external collaborator: \<open>cThread::setCSR\<close>, \<open>cThread::getCSR\<close>
  and whatever the hardware does while the host sleeps are parameters of the model.
  The device sees the shared buffer and its own state \<open>'d\<close>, and may change both
  at each register access and during each sleep of the host.
\<close>

record 'd device =
  dev_setCSR :: "u64 \<Rightarrow> u32 \<Rightarrow> memory \<times> 'd \<Rightarrow> memory \<times> 'd"
  dev_getCSR :: "u32 \<Rightarrow> memory \<times> 'd \<Rightarrow> u64 \<times> memory \<times> 'd"
  dev_idle :: "nat \<Rightarrow> memory \<times> 'd \<Rightarrow> memory \<times> 'd"

record 'd world =
  mem :: memory
  dev :: 'd
  trace :: "event list"

definition setCSR :: "'d device \<Rightarrow> u64 \<Rightarrow> u32 \<Rightarrow> 'd world \<Rightarrow> 'd world" where
  "setCSR D v r s =
     (let md = dev_setCSR D v r (mem s, dev s)
      in s\<lparr>mem := fst md, dev := snd md, trace := trace s @ [SetCSR v r]\<rparr>)"

definition getCSR :: "'d device \<Rightarrow> u32 \<Rightarrow> 'd world \<Rightarrow> u64 \<times> 'd world" where
  "getCSR D r s =
     (let vmd = dev_getCSR D r (mem s, dev s); v = fst vmd
      in (v, s\<lparr>mem := fst (snd vmd), dev := snd (snd vmd), trace := trace s @ [GetCSR r v]\<rparr>))"

definition sleep_for :: "'d device \<Rightarrow> nat \<Rightarrow> 'd world \<Rightarrow> 'd world" where
  "sleep_for D ns s =
     (let md = dev_idle D ns (mem s, dev s)
      in s\<lparr>mem := fst md, dev := snd md, trace := trace s @ [Sleep ns]\<rparr>)"

definition write8 :: "nat \<Rightarrow> byte \<Rightarrow> 'd world \<Rightarrow> 'd world" where
  "write8 off v s = s\<lparr>mem := (mem s)(off := v), trace := trace s @ [Store8 off v]\<rparr>"

definition write64 :: "nat \<Rightarrow> u64 \<Rightarrow> 'd world \<Rightarrow> 'd world" where
  "write64 off v s = s\<lparr>mem := store64 (mem s) off v, trace := trace s @ [Store64 off v]\<rparr>"

definition read64 :: "nat \<Rightarrow> 'd world \<Rightarrow> u64 \<times> 'd world" where
  "read64 off s =
     (load64 (mem s) off, s\<lparr>trace := trace s @ [Load64 off (load64 (mem s) off)]\<rparr>)"

definition print :: "string \<Rightarrow> int list \<Rightarrow> 'd world \<Rightarrow> 'd world" where
  "print txt vals s = s\<lparr>trace := trace s @ [Print txt vals]\<rparr>"

section \<open>Register maps\<close>

text \<open>\<open>enum class DMAEngineRegisters\<close> (indirect variant).\<close>

definition DMA_CMD_REG :: u32 where "DMA_CMD_REG = 0x00"
definition DMA_SRC_ADDR_REG :: u32 where "DMA_SRC_ADDR_REG = 0x08"
definition DMA_DST_ADDR_REG :: u32 where "DMA_DST_ADDR_REG = 0x10"
definition DMA_LEN_REG :: u32 where "DMA_LEN_REG = 0x18"
definition DMA_STATUS_REG :: u32 where "DMA_STATUS_REG = 0x20"
definition DMA_TX_LEN_REG :: u32 where "DMA_TX_LEN_REG = 0x38"

text \<open>\<open>enum class JigsawHostControlRegisters\<close> (indirect variant).\<close>

definition MMIO_VADDR_REG :: u32 where "MMIO_VADDR_REG = 0"
definition MMIO_CTRL_REG :: u32 where "MMIO_CTRL_REG = 1"
definition MMIO_WRITE_STATUS_REG :: u32 where "MMIO_WRITE_STATUS_REG = 2"
definition MMIO_READ_STATUS_REG :: u32 where "MMIO_READ_STATUS_REG = 3"
definition COYOTE_PID_REG :: u32 where "COYOTE_PID_REG = 4"

definition CLOCK_PERIOD_NS :: nat where "CLOCK_PERIOD_NS = 4"

section \<open>Failures\<close>

text \<open>
  What can stop a program short of its normal end: an exception that leaves \<open>main\<close>,
  and two kinds of undefined behaviour of C++, at which the model stops: a write
  through a null pointer and the overflow of an \<open>int\<close>.
\<close>

datatype error = RuntimeError string | NullDereference | SignedOverflow

section \<open>The mailbox proxy of the indirect variant\<close>

text \<open>
  The request fields written by \<open>read_mmio\<close> (source lines 56 to 58) and by
  \<open>write_mmio\<close> (lines 81 to 84), and the response read at line 70.
\<close>

definition encodeReadRequest :: "u64 \<Rightarrow> 'd world \<Rightarrow> 'd world" where
  "encodeReadRequest addr s = write64 33 0 (write64 25 addr (write8 24 0 s))"

definition encodeWriteRequest :: "u64 \<Rightarrow> u64 \<Rightarrow> 'd world \<Rightarrow> 'd world" where
  "encodeWriteRequest addr data s =
     write64 41 data (write64 33 0 (write64 25 addr (write8 24 1 s)))"

definition decodeResponse :: "'d world \<Rightarrow> u64 \<times> 'd world" where
  "decodeResponse s = read64 16 s"

text \<open>
  \<open>while (getCSR(r) != 1) sleep_for(nanoseconds(CLOCK_PERIOD_NS));\<close> The loop has no
  bound: when the register never reads 1 the call does not return, which is \<open>None\<close>.
\<close>

partial_function (option) poll_csr :: "'d device \<Rightarrow> u32 \<Rightarrow> 'd world \<Rightarrow> 'd world option" where
  "poll_csr D r s =
     (let vs = getCSR D r s
      in if fst vs \<noteq> 1 then poll_csr D r (sleep_for D CLOCK_PERIOD_NS (snd vs))
         else Some (snd vs))"

definition read_mmio :: "'d device \<Rightarrow> u64 \<Rightarrow> 'd world \<Rightarrow> (u64 \<times> 'd world) option" where
  "read_mmio D addr s =
     (let s1 = setCSR D 0 MMIO_READ_STATUS_REG s;
          s2 = encodeReadRequest addr s1;
          s3 = setCSR D 1 MMIO_CTRL_REG s2
      in case poll_csr D MMIO_READ_STATUS_REG s3 of
           None \<Rightarrow> None
         | Some s4 \<Rightarrow> Some (decodeResponse s4))"

definition write_mmio :: "'d device \<Rightarrow> u64 \<Rightarrow> u64 \<Rightarrow> 'd world \<Rightarrow> 'd world option" where
  "write_mmio D addr data s =
     (let s1 = setCSR D 0 MMIO_WRITE_STATUS_REG s;
          s2 = encodeWriteRequest addr data s1;
          s3 = setCSR D 1 MMIO_CTRL_REG s2
      in poll_csr D MMIO_WRITE_STATUS_REG s3)"

text \<open>
  The status loop of \<open>benchmark_run\<close> (source lines 143 to 151):
  \<open>while ((status = read_mmio(DMA_STATUS_REG) & 0x1) != 1) { ... }\<close>.
  It returns the last \<open>status\<close> and \<open>polling_count\<close>. The counter is a C++
  \<open>int\<close>: \<open>polling_count % 1000 == 0\<close> says that 1000 divides it, and
  \<open>polling_count++\<close> at \<open>INT_MAX\<close> is undefined behaviour, at which the model
  stops with \<open>SignedOverflow\<close>. The progress line is the two string literals of the
  statement and the two numbers.
\<close>

partial_function (option) dma_status_poll ::
  "'d device \<Rightarrow> s32 \<Rightarrow> 'd world
     \<Rightarrow> (error \<times> 'd world + (u64 \<times> s32) \<times> 'd world) option" where
  "dma_status_poll D polling_count s =
     Option.bind (read_mmio D (ucast DMA_STATUS_REG) s) (\<lambda>vs.
       let status = fst vs AND 1;
           s1 = snd vs
       in if status \<noteq> 1 then
            let s2 = (if sint polling_count mod 1000 = 0
                      then print ''Polling DMA status... count:  val: ''
                             [sint polling_count, uint status] s1
                      else s1)
            in if sint polling_count = 2147483647 then Some (Inl (SignedOverflow, s2))
               else dma_status_poll D (polling_count + 1) (sleep_for D 1000 s2)
          else Some (Inr ((status, polling_count), s1)))"

section \<open>The indirect variant: \<open>examples/jigsaw_minus_nw\<close>\<close>

text \<open>
  \<open>benchmark_run\<close> of the indirect variant. \<open>mem_addr\<close> is the address of the buffer,
  \<open>ctid\<close> what \<open>getCtid()\<close> returns, converted to the \<open>uint64_t\<close> that \<open>setCSR\<close> takes.
  Every step that waits for the device may fail to return. The result is the final
  state, or the failure and the state at which it happened.
\<close>

definition benchmark_run ::
  "'d device \<Rightarrow> u64 \<Rightarrow> u64 \<Rightarrow> 'd world \<Rightarrow> (error \<times> 'd world + 'd world) option" where
  "benchmark_run D mem_addr ctid s0 = do {
     let s = setCSR D ctid COYOTE_PID_REG s0;
     let s = setCSR D mem_addr MMIO_VADDR_REG s;
     (src_addr, s) \<leftarrow> read_mmio D (ucast DMA_SRC_ADDR_REG) s;
     let s = print ''DMA Source Address: 0x'' [uint src_addr] s;
     (dst_addr, s) \<leftarrow> read_mmio D (ucast DMA_DST_ADDR_REG) s;
     let s = print ''DMA Destination Address: 0x'' [uint dst_addr] s;
     (tx_len, s) \<leftarrow> read_mmio D (ucast DMA_TX_LEN_REG) s;
     let s = print ''DMA TX Length: '' [uint tx_len] s;
     (status, s) \<leftarrow> read_mmio D (ucast DMA_STATUS_REG) s;
     let s = print ''DMA Status: '' [uint status] s;
     let s = print ''Starting H2D DMA Test...'' [] s;
     let s = print ''MMIO VADDR: 0x'' [uint mem_addr] s;
     let (vaddr, s) = getCSR D MMIO_VADDR_REG s;
     let s = print ''Reading MMIO VADDR: 0x'' [uint vaddr] s;
     let (pid, s) = getCSR D COYOTE_PID_REG s;
     let s = print ''Reading coyote PID: '' [uint pid] s;
     let h2d_dst_addr = mem_addr + 4096;
     s \<leftarrow> write_mmio D (ucast DMA_SRC_ADDR_REG) h2d_dst_addr s;
     let s = print ''Set DMA Source Address: 0x'' [uint h2d_dst_addr] s;
     (v, s) \<leftarrow> read_mmio D (ucast DMA_SRC_ADDR_REG) s;
     let s = print ''Reading DMA Source Address: 0x'' [uint v] s;
     let len = 1024;
     s \<leftarrow> write_mmio D (ucast DMA_LEN_REG) len s;
     let s = print ''Set DMA Length: '' [uint len] s;
     (v, s) \<leftarrow> read_mmio D (ucast DMA_LEN_REG) s;
     let s = print ''Reading DMA LEN: '' [uint v] s;
     s \<leftarrow> write_mmio D (ucast DMA_CMD_REG) 1 s;
     let s = print ''Started DMA (Cmd: 1)'' [] s;
     r \<leftarrow> dma_status_poll D 0 s;
     case r of
       Inl e \<Rightarrow> Some (Inl e)
     | Inr ((status, polling_count), s) \<Rightarrow> do {
         let s = print ''DMA Completed!'' [] s;
         (status, s) \<leftarrow> read_mmio D (ucast DMA_STATUS_REG) s;
         let s = print ''DMA Status: '' [uint status] s;
         s \<leftarrow> write_mmio D (ucast DMA_STATUS_REG) 0 s;
         (tx_len, s) \<leftarrow> read_mmio D (ucast DMA_TX_LEN_REG) s;
         let s = print ''DMA TX Length: '' [uint tx_len] s;
         Some (Inr s)
       }
   }"

definition run_bench ::
  "'d device \<Rightarrow> u64 \<Rightarrow> u64 \<Rightarrow> 'd world \<Rightarrow> (error \<times> 'd world + 'd world) option" where
  "run_bench D mem_addr ctid s = benchmark_run D mem_addr ctid s"

text \<open>
  \<open>main\<close>. The allocator is an external collaborator: \<open>mem_ptr\<close> is what \<open>getMem\<close>
  returns, 0 for the null pointer. An exception that leaves \<open>main\<close> is the left summand,
  with the state of the world at the throw; a normal return is the exit code and the
  final state. The library macro \<open>HEADER\<close> is taken to print its argument.
\<close>

type_synonym 'd outcome = "error \<times> 'd world + nat \<times> 'd world"

definition final_world :: "'d outcome \<Rightarrow> 'd world" where
  "final_world r = (case r of Inl es \<Rightarrow> snd es | Inr ns \<Rightarrow> snd ns)"

definition getMem :: "nat \<Rightarrow> u64 \<Rightarrow> 'd world \<Rightarrow> 'd world" where
  "getMem n ptr s = s\<lparr>trace := trace s @ [GetMem n ptr]\<rparr>"

definition main_minus_nw :: "'d device \<Rightarrow> u64 \<Rightarrow> u64 \<Rightarrow> 'd world \<Rightarrow> 'd outcome option" where
  "main_minus_nw D mem_ptr ctid s0 =
     (let s = getMem (16 * 1024) mem_ptr s0
      in if mem_ptr = 0 then Some (Inl (RuntimeError ''Could not allocate memory; exiting...'', s))
         else do {
           let s = print ''JIGSAW BASELINE'' [] s;
           let s = print ''=== RUN 1 ==='' [] s;
           r \<leftarrow> run_bench D mem_ptr ctid s;
           case r of
             Inl e \<Rightarrow> Some (Inl e)
           | Inr s \<Rightarrow> do {
               let s = print ''=== RUN 2 ==='' [] s;
               r \<leftarrow> run_bench D mem_ptr ctid s;
               case r of
                 Inl e \<Rightarrow> Some (Inl e)
               | Inr s \<Rightarrow> Some (Inr (0, s))
             }
         })"

section \<open>The baseline variant: \<open>examples/jigsaw_baseline\<close>\<close>

text \<open>\<open>enum class JigsawRegisters\<close> (baseline variant).\<close>

definition Jigsaw_DMA_CMD_REG :: u32 where "Jigsaw_DMA_CMD_REG = 0"
definition Jigsaw_DMA_SRC_ADDR_REG :: u32 where "Jigsaw_DMA_SRC_ADDR_REG = 1"
definition Jigsaw_DMA_DST_ADDR_REG :: u32 where "Jigsaw_DMA_DST_ADDR_REG = 2"
definition Jigsaw_DMA_LEN_REG :: u32 where "Jigsaw_DMA_LEN_REG = 3"
definition Jigsaw_DMA_STATUS_REG :: u32 where "Jigsaw_DMA_STATUS_REG = 4"
definition Jigsaw_START_COMPUTATION_REG :: u32 where "Jigsaw_START_COMPUTATION_REG = 5"
definition Jigsaw_CYCLES_PER_COMPUTATION_REG :: u32 where "Jigsaw_CYCLES_PER_COMPUTATION_REG = 6"
definition Jigsaw_COYOTE_PID_REG :: u32 where "Jigsaw_COYOTE_PID_REG = 7"
definition Jigsaw_COYOTE_DMA_TX_LEN_REG :: u32 where "Jigsaw_COYOTE_DMA_TX_LEN_REG = 8"

text \<open>\<open>for (int i = 0; i < 64; i++) printf("%02x ", ptr[i]);\<close> from index \<open>i\<close> on.\<close>

function dump_bytes :: "nat \<Rightarrow> 'd world \<Rightarrow> 'd world" where
  "dump_bytes i s =
     (if i < 64 then dump_bytes (i + 1) (print ''%02x '' [uint (mem s i)] s) else s)"
  by pat_completeness auto
termination
  by (relation "measure (\<lambda>(i, s). 64 - i)") auto

declare dump_bytes.simps [simp del]

definition benchmark_run_baseline ::
  "'d device \<Rightarrow> u64 \<Rightarrow> u64 \<Rightarrow> 'd world \<Rightarrow> 'd world option" where
  "benchmark_run_baseline D mem_addr ctid s0 = do {
     let s = setCSR D mem_addr Jigsaw_DMA_SRC_ADDR_REG s0;
     let s = setCSR D mem_addr Jigsaw_DMA_DST_ADDR_REG s;
     let s = setCSR D 32768 Jigsaw_DMA_LEN_REG s;
     let s = setCSR D ctid Jigsaw_COYOTE_PID_REG s;
     let s = setCSR D 3 Jigsaw_DMA_CMD_REG s;
     s \<leftarrow> poll_csr D Jigsaw_DMA_STATUS_REG s;
     let (v, s) = getCSR D Jigsaw_DMA_STATUS_REG s;
     let s = print ''DMA_STATUS_REG: '' [uint v] s;
     let (v, s) = getCSR D Jigsaw_DMA_CMD_REG s;
     let s = print ''DMA_CMD_REG: '' [uint v] s;
     let (v, s) = getCSR D Jigsaw_COYOTE_DMA_TX_LEN_REG s;
     let s = print ''COYOTE_DMA_TX_LEN_REG: '' [uint v] s;
     Some (dump_bytes 0 s)
   }"

definition run_bench_baseline :: "'d device \<Rightarrow> u64 \<Rightarrow> u64 \<Rightarrow> 'd world \<Rightarrow> 'd world option" where
  "run_bench_baseline D mem_addr ctid s = benchmark_run_baseline D mem_addr ctid s"

definition main_baseline :: "'d device \<Rightarrow> u64 \<Rightarrow> u64 \<Rightarrow> 'd world \<Rightarrow> 'd outcome option" where
  "main_baseline D mem_ptr ctid s0 =
     (let s = getMem (4 * 1024 * 1024) mem_ptr s0
      in if mem_ptr = 0 then Some (Inl (RuntimeError ''Could not allocate memory; exiting...'', s))
         else do {
           let s = print ''JIGSAW BASELINE'' [] s;
           s \<leftarrow> run_bench_baseline D mem_ptr ctid s;
           Some (Inr (0, s))
         })"

section \<open>The AES host program: \<open>sw/examples/aes_host_baseline\<close>\<close>

definition defSize :: u32 where "defSize = 64 * 1024"
definition keyLow :: u64 where "keyLow = 0xabf7158809cf4f3c"
definition keyHigh :: u64 where "keyHigh = 0x2b7e151628aed2a6"
definition plainLow :: u64 where "plainLow = 0xe93d7e117393172a"
definition plainHigh :: u64 where "plainHigh = 0x6bc1bee22e409f96"
definition cipherLow :: u64 where "cipherLow = 0xa89ecaf32466ef97"
definition cipherHigh :: u64 where "cipherHigh = 0x3ad77bb40d7a3660"

text \<open>
  \<open>cProcess\<close> and the constants of its library (\<open>IODevs::HOST_MEM\<close>,
  \<open>IODevs::ERROR_DEV\<close>, \<open>hugePageSize\<close>, a positive number) are not among the
  sources; they are parameters. An \<open>IODevs\<close> value is the \<open>uint32_t\<close> the program
  prints it as.
\<close>

record 'd cProcess =
  HOST_MEM :: u32
  ERROR_DEV :: u32
  hugePageSize :: nat
  userInIOSwtch :: "u32 \<Rightarrow> u32"
  cp_ioSwitch :: "u32 \<Rightarrow> memory \<times> 'd \<Rightarrow> memory \<times> 'd"
  cp_setCSR :: "u64 \<Rightarrow> u32 \<Rightarrow> memory \<times> 'd \<Rightarrow> memory \<times> 'd"
  cp_invoke :: "u64 \<Rightarrow> u32 \<Rightarrow> memory \<times> 'd \<Rightarrow> memory \<times> 'd"

definition ioSwitch :: "'d cProcess \<Rightarrow> u32 \<Rightarrow> 'd world \<Rightarrow> 'd world" where
  "ioSwitch P io s =
     (let md = cp_ioSwitch P io (mem s, dev s)
      in s\<lparr>mem := fst md, dev := snd md, trace := trace s @ [IoSwitch io]\<rparr>)"

definition cproc_setCSR :: "'d cProcess \<Rightarrow> u64 \<Rightarrow> u32 \<Rightarrow> 'd world \<Rightarrow> 'd world" where
  "cproc_setCSR P v r s =
     (let md = cp_setCSR P v r (mem s, dev s)
      in s\<lparr>mem := fst md, dev := snd md, trace := trace s @ [SetCSR v r]\<rparr>)"

definition invoke :: "'d cProcess \<Rightarrow> u64 \<Rightarrow> u32 \<Rightarrow> 'd world \<Rightarrow> 'd world" where
  "invoke P ptr len s =
     (let md = cp_invoke P ptr len (mem s, dev s)
      in s\<lparr>mem := fst md, dev := snd md, trace := trace s @ [Invoke ptr len]\<rparr>)"

text \<open>
  The two loops over \<open>tMem\<close>, an array of \<open>uint64_t\<close>: the fill (source lines 71
  to 74) and the comparison with the test vectors (lines 84 to 92). \<open>mem\<close> of the
  world is the buffer \<open>tMem\<close> points to.
\<close>

definition fill_plain :: "nat \<Rightarrow> memory \<Rightarrow> memory" where
  "fill_plain n m =
     fold (\<lambda>i m. store64 m (8 * i) (if i mod 2 \<noteq> 0 then plainHigh else plainLow)) [0..<n] m"

definition check_cipher :: "nat \<Rightarrow> memory \<Rightarrow> bool" where
  "check_cipher n m =
     list_all (\<lambda>i. \<not> (if i mod 2 \<noteq> 0 then load64 m (8 * i) \<noteq> cipherHigh
                          else load64 m (8 * i) \<noteq> cipherLow)) [0..<n]"

text \<open>
  \<open>main\<close>: \<open>opt_size\<close> and \<open>opt_iodev\<close> are the command-line options, \<open>tMem\<close> and
  \<open>rMem\<close> what the two \<open>getMem\<close> calls return (0 for the null pointer); the size
  asked for is a number of huge pages here. The program does not test either pointer.
  Writing through a null \<open>tMem\<close> is undefined behaviour in C++; the model stops
  there with \<open>NullDereference\<close>.
\<close>

definition main_aes ::
  "'d cProcess \<Rightarrow> u32 option \<Rightarrow> u32 option \<Rightarrow> u64 \<Rightarrow> u64 \<Rightarrow> 'd world \<Rightarrow> 'd outcome" where
  "main_aes P opt_size opt_iodev tMem rMem s0 =
     (let size = (case opt_size of Some n \<Rightarrow> n | None \<Rightarrow> defSize);
          io_dev = (case opt_iodev of Some d \<Rightarrow> userInIOSwtch P d | None \<Rightarrow> HOST_MEM P)
      in if opt_iodev \<noteq> None \<and> io_dev = ERROR_DEV P
         then Inr (1, print ''User entered an invalid IO configuration'' [] s0)
         else
           let s = (if opt_iodev \<noteq> None
                    then print ''User selected IO device: '' [uint io_dev] s0 else s0);
               n_pages = unat size div hugePageSize P
                         + (if unat size mod hugePageSize P > 0 then 1 else 0);
               s = getMem n_pages tMem s;
               s = getMem n_pages rMem s;
               n = unat size div 8
           in if tMem = 0 \<and> 0 < n then Inl (NullDereference, s)
              else
                let s = s\<lparr>mem := fill_plain n (mem s)\<rparr>;
                    s = ioSwitch P io_dev s;
                    s = cproc_setCSR P keyLow 0 s;
                    s = cproc_setCSR P keyHigh 1 s;
                    s = invoke P tMem size s;
                    k = check_cipher n (mem s);
                    s = print (if k then ''Success: cipher text matches test vectors!''
                               else ''Error: found cipher text that doesn't match the test vector'')
                          [] s
                in Inr (0, s))"

section \<open>Test doubles for the device\<close>

text \<open>
  Modelled from the spec: the device side of the mailbox and the DMA engine are
  hardware, not among the sources. The doubles follow sections 3, 4.2 and 8 of the
  specification: host-control registers that keep what is written to them; on a
  trigger (1 written to the mailbox control register) the request in the buffer is
  served, a read by storing the addressed register in the response field and raising
  the read-completion status, a write by updating the addressed register and raising
  the write-completion status. \<open>on_write\<close> is what a register write does to the
  engine's registers.
\<close>

record regfile =
  csr :: "u32 \<Rightarrow> u64"
  regs :: "u64 \<Rightarrow> u64"

definition serve_request ::
  "(u64 \<Rightarrow> u64 \<Rightarrow> (u64 \<Rightarrow> u64) \<Rightarrow> (u64 \<Rightarrow> u64)) \<Rightarrow> memory \<times> regfile \<Rightarrow> memory \<times> regfile" where
  "serve_request on_write md =
     (let m = fst md; d = snd md
      in if m 24 = 0
         then (store64 m 16 (regs d (load64 m 25)),
               d\<lparr>csr := (csr d)(MMIO_READ_STATUS_REG := 1)\<rparr>)
         else if m 24 = 1
         then (m, d\<lparr>regs := on_write (load64 m 25) (load64 m 41) (regs d),
                     csr := (csr d)(MMIO_WRITE_STATUS_REG := 1)\<rparr>)
         else (m, d))"

definition mailbox_dev ::
  "(u64 \<Rightarrow> u64 \<Rightarrow> (u64 \<Rightarrow> u64) \<Rightarrow> (u64 \<Rightarrow> u64)) \<Rightarrow> regfile device" where
  "mailbox_dev on_write =
     \<lparr>dev_setCSR = (\<lambda>v r md.
          let md1 = (fst md, (snd md)\<lparr>csr := (csr (snd md))(r := v)\<rparr>)
          in if r = MMIO_CTRL_REG \<and> v = 1 then serve_request on_write md1 else md1),
      dev_getCSR = (\<lambda>r md. (csr (snd md) r, md)),
      dev_idle = (\<lambda>ns md. md)\<rparr>"

text \<open>Pure storage: a register write stores the value and does nothing else.\<close>

definition store_only :: "u64 \<Rightarrow> u64 \<Rightarrow> (u64 \<Rightarrow> u64) \<Rightarrow> (u64 \<Rightarrow> u64)" where
  "store_only a v r = r(a := v)"

definition storage_dev :: "regfile device" where
  "storage_dev = mailbox_dev store_only"

text \<open>
  A DMA engine behind the mailbox: a write to the command register with the start
  bit set finishes at once, puts \<open>fin\<close> into the status register and
  \<open>tx (requested length)\<close> into the transferred-length register.
\<close>

definition dma_on_write :: "u64 \<Rightarrow> (u64 \<Rightarrow> u64) \<Rightarrow> u64 \<Rightarrow> u64 \<Rightarrow> (u64 \<Rightarrow> u64) \<Rightarrow> (u64 \<Rightarrow> u64)" where
  "dma_on_write fin tx a v r =
     (let r1 = r(a := v)
      in if a = ucast DMA_CMD_REG \<and> v AND 1 = 1
         then r1(ucast DMA_STATUS_REG := fin, ucast DMA_TX_LEN_REG := tx (r1 (ucast DMA_LEN_REG)))
         else r1)"

definition dma_dev :: "u64 \<Rightarrow> (u64 \<Rightarrow> u64) \<Rightarrow> regfile device" where
  "dma_dev fin tx = mailbox_dev (dma_on_write fin tx)"

text \<open>
  The baseline's engine, reached through \<open>setCSR\<close>/\<open>getCSR\<close> directly: a write to
  the command register with the start bit set finishes at once in the same way.
\<close>

definition direct_dev :: "u64 \<Rightarrow> (u64 \<Rightarrow> u64) \<Rightarrow> (u32 \<Rightarrow> u64) device" where
  "direct_dev fin tx =
     \<lparr>dev_setCSR = (\<lambda>v r md.
          let c = (snd md)(r := v)
          in if r = Jigsaw_DMA_CMD_REG \<and> v AND 1 = 1
             then (fst md, c(Jigsaw_DMA_STATUS_REG := fin,
                             Jigsaw_COYOTE_DMA_TX_LEN_REG := tx (c Jigsaw_DMA_LEN_REG)))
             else (fst md, c)),
      dev_getCSR = (\<lambda>r md. (snd md r, md)),
      dev_idle = (\<lambda>ns md. md)\<rparr>"

text \<open>
  Doubles that take their time. Their state is a register file and a countdown of
  the host's sleeps still to pass before the pending work is done (0: nothing
  pending). \<open>lazy_storage_dev lat\<close> is the pure storage, but serves a mailbox
  request only during the \<open>lat\<close>-th sleep after the trigger. \<open>slow_dma_dev lat fin tx\<close>
  serves the mailbox at once, but its engine finishes a started transfer only
  during the \<open>lat\<close>-th sleep after the command, and leaves the status register as
  it was until then.
\<close>

definition lazy_storage_dev :: "nat \<Rightarrow> (regfile \<times> nat) device" where
  "lazy_storage_dev lat =
     \<lparr>dev_setCSR = (\<lambda>v r md.
          let d = fst (snd md);
              d1 = d\<lparr>csr := (csr d)(r := v)\<rparr>
          in if r = MMIO_CTRL_REG \<and> v = 1 then (fst md, (d1, lat))
             else (fst md, (d1, snd (snd md)))),
      dev_getCSR = (\<lambda>r md. (csr (fst (snd md)) r, md)),
      dev_idle = (\<lambda>ns md.
          if snd (snd md) = 1
          then (let md1 = serve_request store_only (fst md, fst (snd md))
                in (fst md1, (snd md1, 0)))
          else (fst md, (fst (snd md), snd (snd md) - 1)))\<rparr>"


text \<open>A \<open>cProcess\<close> double whose calls leave buffer and device as they are.\<close>

definition idle_cproc :: "unit cProcess" where
  "idle_cproc =
     \<lparr>HOST_MEM = 0, ERROR_DEV = 7, hugePageSize = 2097152,
      userInIOSwtch = (\<lambda>d. if d < 7 then d else 7),
      cp_ioSwitch = (\<lambda>io md. md),
      cp_setCSR = (\<lambda>v r md. md),
      cp_invoke = (\<lambda>ptr len md. md)\<rparr>"

text \<open>Start states: a zeroed buffer, zeroed registers, nothing observed yet.\<close>

definition world0 :: "regfile world" where
  "world0 = \<lparr>mem = (\<lambda>i. 0), dev = \<lparr>csr = (\<lambda>r. 0), regs = (\<lambda>a. 0)\<rparr>, trace = []\<rparr>"

definition world1 :: "regfile world" where
  "world1 = world0\<lparr>dev := \<lparr>csr = (\<lambda>r. 0), regs = (\<lambda>a. if a = 8 then 0x1000 else 0)\<rparr>\<rparr>"

definition timed_world0 :: "(regfile \<times> nat) world" where
  "timed_world0 = \<lparr>mem = (\<lambda>i. 0), dev = (\<lparr>csr = (\<lambda>r. 0), regs = (\<lambda>a. 0)\<rparr>, 0), trace = []\<rparr>"

definition timed_world1 :: "(regfile \<times> nat) world" where
  "timed_world1 =
     timed_world0\<lparr>dev := (\<lparr>csr = (\<lambda>r. 0), regs = (\<lambda>a. if a = 8 then 0x1000 else 0)\<rparr>, 0)\<rparr>"

definition direct_world0 :: "(u32 \<Rightarrow> u64) world" where
  "direct_world0 = \<lparr>mem = (\<lambda>i. 0), dev = (\<lambda>r. 0), trace = []\<rparr>"

definition aes_world0 :: "unit world" where
  "aes_world0 = \<lparr>mem = (\<lambda>i. 0), dev = (), trace = []\<rparr>"

section \<open>Describing traces\<close>

text \<open>
  The state after \<open>k\<close> rounds of the completion loop that did not end it: each
  round reads register \<open>r\<close> and sleeps for one clock period.
\<close>

fun polled :: "'d device \<Rightarrow> u32 \<Rightarrow> nat \<Rightarrow> 'd world \<Rightarrow> 'd world" where
  "polled D r 0 s = s"
| "polled D r (Suc k) s = polled D r k (sleep_for D CLOCK_PERIOD_NS (snd (getCSR D r s)))"

text \<open>
  The events of one polling loop on register \<open>r\<close>: \<open>vs\<close> are the values read that
  were not 1, each followed by a sleep; the last read returns 1.
\<close>

definition poll_events :: "u32 \<Rightarrow> u64 list \<Rightarrow> event list" where
  "poll_events r vs =
     concat (map (\<lambda>v. [GetCSR r v, Sleep CLOCK_PERIOD_NS]) vs) @ [GetCSR r 1]"

text \<open>The events of one returning \<open>read_mmio\<close> and of one returning \<open>write_mmio\<close>.\<close>

definition read_mmio_events :: "u64 \<Rightarrow> u64 list \<Rightarrow> u64 \<Rightarrow> event list" where
  "read_mmio_events addr vs v =
     [SetCSR 0 MMIO_READ_STATUS_REG,
      Store8 24 0, Store64 25 addr, Store64 33 0,
      SetCSR 1 MMIO_CTRL_REG]
     @ poll_events MMIO_READ_STATUS_REG vs
     @ [Load64 16 v]"

definition write_mmio_events :: "u64 \<Rightarrow> u64 \<Rightarrow> u64 list \<Rightarrow> event list" where
  "write_mmio_events addr data vs =
     [SetCSR 0 MMIO_WRITE_STATUS_REG,
      Store8 24 1, Store64 25 addr, Store64 33 0, Store64 41 data,
      SetCSR 1 MMIO_CTRL_REG]
     @ poll_events MMIO_WRITE_STATUS_REG vs"

fun is_store :: "event \<Rightarrow> bool" where
  "is_store (Store8 off v) = True"
| "is_store (Store64 off v) = True"
| "is_store e = False"

fun is_setCSR :: "event \<Rightarrow> bool" where
  "is_setCSR (SetCSR v r) = True"
| "is_setCSR e = False"

fun is_print :: "event \<Rightarrow> bool" where
  "is_print (Print txt vals) = True"
| "is_print e = False"

text \<open>The events of the baseline \<open>benchmark_run\<close> up to its status loop and after it.\<close>

definition baseline_setup_events :: "u64 \<Rightarrow> u64 \<Rightarrow> event list" where
  "baseline_setup_events mem_addr ctid =
     [SetCSR mem_addr Jigsaw_DMA_SRC_ADDR_REG,
      SetCSR mem_addr Jigsaw_DMA_DST_ADDR_REG,
      SetCSR 32768 Jigsaw_DMA_LEN_REG,
      SetCSR ctid Jigsaw_COYOTE_PID_REG,
      SetCSR 3 Jigsaw_DMA_CMD_REG]"

definition baseline_report_events :: "u64 \<Rightarrow> u64 \<Rightarrow> u64 \<Rightarrow> memory \<Rightarrow> event list" where
  "baseline_report_events v1 v2 v3 m =
     [GetCSR Jigsaw_DMA_STATUS_REG v1, Print ''DMA_STATUS_REG: '' [uint v1],
      GetCSR Jigsaw_DMA_CMD_REG v2, Print ''DMA_CMD_REG: '' [uint v2],
      GetCSR Jigsaw_COYOTE_DMA_TX_LEN_REG v3, Print ''COYOTE_DMA_TX_LEN_REG: '' [uint v3]]
     @ map (\<lambda>i. Print ''%02x '' [uint (m i)]) [0..<64]"

text \<open>
  The statements of \<open>benchmark_run\<close> before its status loop (source lines 44 to 141)
  and after it (lines 152 to 161), as functions of their own; \<open>benchmark_run\<close> is
  their sequence around the loop (\<open>benchmark_run_phases\<close>).
\<close>

definition dma_configure_start :: "'d device \<Rightarrow> u64 \<Rightarrow> u64 \<Rightarrow> 'd world \<Rightarrow> 'd world option" where
  "dma_configure_start D mem_addr ctid s0 = do {
     let s = setCSR D ctid COYOTE_PID_REG s0;
     let s = setCSR D mem_addr MMIO_VADDR_REG s;
     (src_addr, s) \<leftarrow> read_mmio D (ucast DMA_SRC_ADDR_REG) s;
     let s = print ''DMA Source Address: 0x'' [uint src_addr] s;
     (dst_addr, s) \<leftarrow> read_mmio D (ucast DMA_DST_ADDR_REG) s;
     let s = print ''DMA Destination Address: 0x'' [uint dst_addr] s;
     (tx_len, s) \<leftarrow> read_mmio D (ucast DMA_TX_LEN_REG) s;
     let s = print ''DMA TX Length: '' [uint tx_len] s;
     (status, s) \<leftarrow> read_mmio D (ucast DMA_STATUS_REG) s;
     let s = print ''DMA Status: '' [uint status] s;
     let s = print ''Starting H2D DMA Test...'' [] s;
     let s = print ''MMIO VADDR: 0x'' [uint mem_addr] s;
     let (vaddr, s) = getCSR D MMIO_VADDR_REG s;
     let s = print ''Reading MMIO VADDR: 0x'' [uint vaddr] s;
     let (pid, s) = getCSR D COYOTE_PID_REG s;
     let s = print ''Reading coyote PID: '' [uint pid] s;
     let h2d_dst_addr = mem_addr + 4096;
     s \<leftarrow> write_mmio D (ucast DMA_SRC_ADDR_REG) h2d_dst_addr s;
     let s = print ''Set DMA Source Address: 0x'' [uint h2d_dst_addr] s;
     (v, s) \<leftarrow> read_mmio D (ucast DMA_SRC_ADDR_REG) s;
     let s = print ''Reading DMA Source Address: 0x'' [uint v] s;
     let len = 1024;
     s \<leftarrow> write_mmio D (ucast DMA_LEN_REG) len s;
     let s = print ''Set DMA Length: '' [uint len] s;
     (v, s) \<leftarrow> read_mmio D (ucast DMA_LEN_REG) s;
     let s = print ''Reading DMA LEN: '' [uint v] s;
     s \<leftarrow> write_mmio D (ucast DMA_CMD_REG) 1 s;
     let s = print ''Started DMA (Cmd: 1)'' [] s;
     Some s
   }"

definition dma_finish :: "'d device \<Rightarrow> 'd world \<Rightarrow> 'd world option" where
  "dma_finish D s0 = do {
     let s = print ''DMA Completed!'' [] s0;
     (status, s) \<leftarrow> read_mmio D (ucast DMA_STATUS_REG) s;
     let s = print ''DMA Status: '' [uint status] s;
     s \<leftarrow> write_mmio D (ucast DMA_STATUS_REG) 0 s;
     (tx_len, s) \<leftarrow> read_mmio D (ucast DMA_TX_LEN_REG) s;
     let s = print ''DMA TX Length: '' [uint tx_len] s;
     Some s
   }"

text \<open>
  What one returning \<open>read_mmio\<close> or \<open>write_mmio\<close> showed: the values its completion
  poll read before the 1, and for a read the value returned.
\<close>

type_synonym read_obs = "u64 list \<times> u64"
type_synonym write_obs = "u64 list"

text \<open>
  The events of the status loop of \<open>benchmark_run\<close>: \<open>its\<close> are the reads whose bit 0
  was clear, \<open>n\<close> the value of \<open>polling_count\<close> at the first of them. It is used
  for loops that did not overflow the counter.
\<close>

fun dma_poll_events :: "s32 \<Rightarrow> read_obs list \<Rightarrow> event list" where
  "dma_poll_events n [] = []"
| "dma_poll_events n (it # its) =
     read_mmio_events (ucast DMA_STATUS_REG) (fst it) (snd it)
     @ (if sint n mod 1000 = 0
        then [Print ''Polling DMA status... count:  val: '' [sint n, uint (snd it AND 1)]]
        else [])
     @ [Sleep 1000]
     @ dma_poll_events (n + 1) its"

definition configure_start_events ::
  "u64 \<Rightarrow> u64 \<Rightarrow> read_obs \<Rightarrow> read_obs \<Rightarrow> read_obs \<Rightarrow> read_obs \<Rightarrow> u64 \<Rightarrow> u64
     \<Rightarrow> write_obs \<Rightarrow> read_obs \<Rightarrow> write_obs \<Rightarrow> read_obs \<Rightarrow> write_obs \<Rightarrow> event list" where
  "configure_start_events mem_addr ctid r1 r2 r3 r4 g1 g2 w5 r6 w7 r8 w9 =
     [SetCSR ctid COYOTE_PID_REG, SetCSR mem_addr MMIO_VADDR_REG]
     @ read_mmio_events (ucast DMA_SRC_ADDR_REG) (fst r1) (snd r1)
     @ [Print ''DMA Source Address: 0x'' [uint (snd r1)]]
     @ read_mmio_events (ucast DMA_DST_ADDR_REG) (fst r2) (snd r2)
     @ [Print ''DMA Destination Address: 0x'' [uint (snd r2)]]
     @ read_mmio_events (ucast DMA_TX_LEN_REG) (fst r3) (snd r3)
     @ [Print ''DMA TX Length: '' [uint (snd r3)]]
     @ read_mmio_events (ucast DMA_STATUS_REG) (fst r4) (snd r4)
     @ [Print ''DMA Status: '' [uint (snd r4)],
        Print ''Starting H2D DMA Test...'' [],
        Print ''MMIO VADDR: 0x'' [uint mem_addr],
        GetCSR MMIO_VADDR_REG g1,
        Print ''Reading MMIO VADDR: 0x'' [uint g1],
        GetCSR COYOTE_PID_REG g2,
        Print ''Reading coyote PID: '' [uint g2]]
     @ write_mmio_events (ucast DMA_SRC_ADDR_REG) (mem_addr + 4096) w5
     @ [Print ''Set DMA Source Address: 0x'' [uint (mem_addr + 4096)]]
     @ read_mmio_events (ucast DMA_SRC_ADDR_REG) (fst r6) (snd r6)
     @ [Print ''Reading DMA Source Address: 0x'' [uint (snd r6)]]
     @ write_mmio_events (ucast DMA_LEN_REG) 1024 w7
     @ [Print ''Set DMA Length: '' [1024]]
     @ read_mmio_events (ucast DMA_LEN_REG) (fst r8) (snd r8)
     @ [Print ''Reading DMA LEN: '' [uint (snd r8)]]
     @ write_mmio_events (ucast DMA_CMD_REG) 1 w9
     @ [Print ''Started DMA (Cmd: 1)'' []]"

definition finish_events :: "read_obs \<Rightarrow> write_obs \<Rightarrow> read_obs \<Rightarrow> event list" where
  "finish_events r1 w2 r3 =
     [Print ''DMA Completed!'' []]
     @ read_mmio_events (ucast DMA_STATUS_REG) (fst r1) (snd r1)
     @ [Print ''DMA Status: '' [uint (snd r1)]]
     @ write_mmio_events (ucast DMA_STATUS_REG) 0 w2
     @ read_mmio_events (ucast DMA_TX_LEN_REG) (fst r3) (snd r3)
     @ [Print ''DMA TX Length: '' [uint (snd r3)]]"

section \<open>Properties of the memory model\<close>

lemma bit_byte_of:
  "bit (push_bit k (ucast (ucast (drop_bit k (v::u64)) :: byte) :: u64)) n
     \<longleftrightarrow> k \<le> n \<and> n < k + 8 \<and> n < 64 \<and> bit v n"
  by (auto simp: bit_push_bit_iff bit_ucast_iff bit_drop_bit_eq dest: bit_imp_le_length)

lemma bit_byte_of0:
  "bit (ucast (ucast (v::u64) :: byte) :: u64) n \<longleftrightarrow> n < 8 \<and> bit v n"
  using bit_byte_of [of 0 v n] by (auto dest: bit_imp_le_length)

lemma load64_store64_same: "load64 (store64 m off v) off = v"
proof (rule bit_eqI)
  fix n
  assume "possible_bit TYPE(u64) n"
  then have n: "n < 64" by (simp add: possible_bit_def)
  have "bit (load64 (store64 m off v) off) n \<longleftrightarrow> n < 64 \<and> bit v n"
    unfolding load64_def store64_def
    by (simp add: bit_or_iff bit_byte_of bit_byte_of0) arith
  with n show "bit (load64 (store64 m off v) off) n = bit v n" by simp
qed

lemma store64_other: "i < off \<or> off + 8 \<le> i \<Longrightarrow> store64 m off v i = m i"
  unfolding store64_def by auto

lemma load64_store64_other:
  assumes "off + 8 \<le> a \<or> a + 8 \<le> off"
  shows "load64 (store64 m a v) off = load64 m off"
proof -
  have "\<And>k. k < 8 \<Longrightarrow> store64 m a v (off + k) = m (off + k)"
    using assms by (intro store64_other) arith
  from this[of 0] this[of 1] this[of 2] this[of 3] this[of 4] this[of 5] this[of 6] this[of 7]
  show ?thesis unfolding load64_def by simp
qed

lemma load64_upd_other: "a < off \<or> off + 8 \<le> a \<Longrightarrow> load64 (m(a := b)) off = load64 m off"
  unfolding load64_def by auto

section \<open>Properties of the primitive steps and of polling\<close>

lemma trace_setCSR [simp]: "trace (setCSR D v r s) = trace s @ [SetCSR v r]"
  by (simp add: setCSR_def Let_def)

lemma trace_getCSR [simp]: "trace (snd (getCSR D r s)) = trace s @ [GetCSR r (fst (getCSR D r s))]"
  by (simp add: getCSR_def Let_def)

lemma trace_sleep_for [simp]: "trace (sleep_for D ns s) = trace s @ [Sleep ns]"
  by (simp add: sleep_for_def Let_def)

lemma trace_write8 [simp]: "trace (write8 off v s) = trace s @ [Store8 off v]"
  by (simp add: write8_def)

lemma trace_write64 [simp]: "trace (write64 off v s) = trace s @ [Store64 off v]"
  by (simp add: write64_def)

lemma trace_print [simp]: "trace (print txt vals s) = trace s @ [Print txt vals]"
  by (simp add: print_def)

lemma trace_getMem [simp]: "trace (getMem n p s) = trace s @ [GetMem n p]"
  by (simp add: getMem_def)

lemma read64_simps [simp]:
  "fst (read64 off s) = load64 (mem s) off"
  "trace (snd (read64 off s)) = trace s @ [Load64 off (load64 (mem s) off)]"
  "mem (snd (read64 off s)) = mem s"
  "dev (snd (read64 off s)) = dev s"
  by (simp_all add: read64_def)

lemma poll_csr_done:
  "fst (getCSR D r s) = 1 \<Longrightarrow> poll_csr D r s = Some (snd (getCSR D r s))"
  by (subst poll_csr.simps) (simp add: Let_def)

lemma poll_csr_step:
  "fst (getCSR D r s) \<noteq> 1 \<Longrightarrow>
     poll_csr D r s = poll_csr D r (sleep_for D CLOCK_PERIOD_NS (snd (getCSR D r s)))"
  by (subst poll_csr.simps) (simp add: Let_def)

lemma poll_events_Cons:
  "poll_events r (v # vs) = GetCSR r v # Sleep CLOCK_PERIOD_NS # poll_events r vs"
  by (simp add: poll_events_def)

lemma poll_csr_trace:
  assumes ret: "poll_csr D r s = Some s'"
  shows "\<exists>vs. 1 \<notin> set vs \<and> trace s' = trace s @ poll_events r vs"
proof (rule poll_csr.raw_induct
    [where P = "\<lambda>D r s s'. \<exists>vs. 1 \<notin> set vs \<and> trace s' = trace s @ poll_events r vs",
     OF _ ret])
  fix poll :: "'a device \<Rightarrow> u32 \<Rightarrow> 'a world \<Rightarrow> 'a world option" and D r s s'
  assume IH: "\<And>D r s y. poll D r s = Some y \<Longrightarrow>
                 \<exists>vs. 1 \<notin> set vs \<and> trace y = trace s @ poll_events r vs"
    and body: "(let vs = getCSR D r s
                in if fst vs \<noteq> 1 then poll D r (sleep_for D CLOCK_PERIOD_NS (snd vs))
                   else Some (snd vs)) = Some s'"
  let ?v = "fst (getCSR D r s)"
  let ?s1 = "snd (getCSR D r s)"
  show "\<exists>vs. 1 \<notin> set vs \<and> trace s' = trace s @ poll_events r vs"
  proof (cases "?v = 1")
    case True
    with body have "s' = ?s1" by (simp add: Let_def)
    with True have t: "trace s' = trace s @ poll_events r []"
      by (simp add: poll_events_def)
    show ?thesis
    proof (intro exI conjI)
      show "1 \<notin> set ([] :: u64 list)" by simp
      show "trace s' = trace s @ poll_events r []" by (rule t)
    qed
  next
    case False
    with body have "poll D r (sleep_for D CLOCK_PERIOD_NS ?s1) = Some s'"
      by (simp add: Let_def)
    from IH[OF this] obtain vs where vs: "1 \<notin> set vs"
      "trace s' = trace (sleep_for D CLOCK_PERIOD_NS ?s1) @ poll_events r vs"
      by blast
    show ?thesis
    proof (intro exI conjI)
      show "1 \<notin> set (?v # vs)" using vs(1) False by auto
      show "trace s' = trace s @ poll_events r (?v # vs)"
        using vs(2) by (simp add: poll_events_Cons)
    qed
  qed
qed

lemma poll_csr_after_polled:
  "(\<forall>j<k. fst (getCSR D r (polled D r j s)) \<noteq> 1) \<Longrightarrow>
     poll_csr D r s = poll_csr D r (polled D r k s)"
proof (induction k arbitrary: s)
  case 0
  show ?case by simp
next
  case (Suc k)
  let ?s1 = "sleep_for D CLOCK_PERIOD_NS (snd (getCSR D r s))"
  from Suc.prems have "fst (getCSR D r (polled D r 0 s)) \<noteq> 1" by blast
  then have a: "poll_csr D r s = poll_csr D r ?s1" by (simp add: poll_csr_step)
  have "\<forall>j<k. fst (getCSR D r (polled D r j ?s1)) \<noteq> 1"
  proof (intro allI impI)
    fix j assume "j < k"
    then have "Suc j < Suc k" by simp
    with Suc.prems have "fst (getCSR D r (polled D r (Suc j) s)) \<noteq> 1" by blast
    then show "fst (getCSR D r (polled D r j ?s1)) \<noteq> 1" by simp
  qed
  from Suc.IH[OF this] a show ?case by simp
qed

lemma poll_csr_returns_polled:
  assumes ret: "poll_csr D r s = Some s'"
  shows "\<exists>k. (\<forall>j<k. fst (getCSR D r (polled D r j s)) \<noteq> 1)
             \<and> fst (getCSR D r (polled D r k s)) = 1
             \<and> s' = snd (getCSR D r (polled D r k s))"
proof (rule poll_csr.raw_induct
    [where P = "\<lambda>D r s s'. \<exists>k. (\<forall>j<k. fst (getCSR D r (polled D r j s)) \<noteq> 1)
             \<and> fst (getCSR D r (polled D r k s)) = 1
             \<and> s' = snd (getCSR D r (polled D r k s))",
     OF _ ret])
  fix poll :: "'a device \<Rightarrow> u32 \<Rightarrow> 'a world \<Rightarrow> 'a world option" and D r s s'
  assume IH: "\<And>D r s y. poll D r s = Some y \<Longrightarrow>
                 \<exists>k. (\<forall>j<k. fst (getCSR D r (polled D r j s)) \<noteq> 1)
                   \<and> fst (getCSR D r (polled D r k s)) = 1
                   \<and> y = snd (getCSR D r (polled D r k s))"
    and body: "(let vs = getCSR D r s
                in if fst vs \<noteq> 1 then poll D r (sleep_for D CLOCK_PERIOD_NS (snd vs))
                   else Some (snd vs)) = Some s'"
  let ?s1 = "sleep_for D CLOCK_PERIOD_NS (snd (getCSR D r s))"
  show "\<exists>k. (\<forall>j<k. fst (getCSR D r (polled D r j s)) \<noteq> 1)
             \<and> fst (getCSR D r (polled D r k s)) = 1
             \<and> s' = snd (getCSR D r (polled D r k s))"
  proof (cases "fst (getCSR D r s) = 1")
    case True
    with body have "s' = snd (getCSR D r s)" by (simp add: Let_def)
    with True have "(\<forall>j<0. fst (getCSR D r (polled D r j s)) \<noteq> 1)
             \<and> fst (getCSR D r (polled D r 0 s)) = 1
             \<and> s' = snd (getCSR D r (polled D r 0 s))" by simp
    then show ?thesis by blast
  next
    case False
    with body have "poll D r ?s1 = Some s'" by (simp add: Let_def)
    from IH[OF this] obtain k where
      k: "\<forall>j<k. fst (getCSR D r (polled D r j ?s1)) \<noteq> 1"
         "fst (getCSR D r (polled D r k ?s1)) = 1"
         "s' = snd (getCSR D r (polled D r k ?s1))" by blast
    have "\<forall>j<Suc k. fst (getCSR D r (polled D r j s)) \<noteq> 1"
    proof (intro allI impI)
      fix j assume j: "j < Suc k"
      show "fst (getCSR D r (polled D r j s)) \<noteq> 1"
      proof (cases j)
        case 0
        with False show ?thesis by simp
      next
        case (Suc i)
        with j have "i < k" by simp
        with k(1) Suc show ?thesis by simp
      qed
    qed
    with k(2,3) have "(\<forall>j<Suc k. fst (getCSR D r (polled D r j s)) \<noteq> 1)
             \<and> fst (getCSR D r (polled D r (Suc k) s)) = 1
             \<and> s' = snd (getCSR D r (polled D r (Suc k) s))" by simp
    then show ?thesis by blast
  qed
qed

lemma trace_polled:
  "trace (polled D r k s)
     = trace s @ concat (map (\<lambda>j. [GetCSR r (fst (getCSR D r (polled D r j s))),
                                    Sleep CLOCK_PERIOD_NS]) [0..<k])"
proof (induction k arbitrary: s)
  case 0
  show ?case by simp
next
  case (Suc k)
  let ?s1 = "sleep_for D CLOCK_PERIOD_NS (snd (getCSR D r s))"
  have "[0..<Suc k] = 0 # map Suc [0..<k]"
    by (simp add: upt_conv_Cons map_Suc_upt del: upt_Suc)
  then show ?case
    using Suc.IH[of ?s1] by (simp add: comp_def del: upt_Suc)
qed

lemmas reg_defs = MMIO_VADDR_REG_def MMIO_CTRL_REG_def MMIO_WRITE_STATUS_REG_def
  MMIO_READ_STATUS_REG_def COYOTE_PID_REG_def

lemma poll_events_Nil: "poll_events r [] = [GetCSR r 1]"
  by (simp add: poll_events_def)

lemma poll_events_no_store:
  "e \<in> set (poll_events r vs) \<Longrightarrow> \<not> is_store e \<and> (\<forall>v r'. e \<noteq> SetCSR v r')"
  by (induction vs) (auto simp: poll_events_Nil poll_events_Cons)

lemma getCSR_mailbox:
  "getCSR (mailbox_dev f) r s = (csr (dev s) r, s\<lparr>trace := trace s @ [GetCSR r (csr (dev s) r)]\<rparr>)"
  by (simp add: getCSR_def mailbox_dev_def Let_def)

lemma setCSR_mailbox:
  "r \<noteq> MMIO_CTRL_REG \<or> v \<noteq> 1 \<Longrightarrow>
   setCSR (mailbox_dev f) v r s =
     s\<lparr>dev := (dev s)\<lparr>csr := (csr (dev s))(r := v)\<rparr>, trace := trace s @ [SetCSR v r]\<rparr>"
  by (auto simp add: setCSR_def mailbox_dev_def Let_def)

lemma write_mmio_mailbox:
  "write_mmio (mailbox_dev f) a v s =
     Some (s\<lparr>mem := store64 (store64 (store64 ((mem s)(24 := 1)) 25 a) 33 0) 41 v,
              dev := (dev s)\<lparr>regs := f a v (regs (dev s)),
                              csr := (csr (dev s))(1 := 1, 2 := 1)\<rparr>,
              trace := trace s @ write_mmio_events a v []\<rparr>)"
  apply (simp add: write_mmio_def Let_def)
  apply (subst poll_csr_done)
   apply (simp add: getCSR_mailbox)
   apply (simp add: setCSR_def mailbox_dev_def Let_def encodeWriteRequest_def write64_def
      write8_def serve_request_def reg_defs store64_other)
  apply (simp add: getCSR_mailbox)
  apply (simp add: setCSR_def mailbox_dev_def Let_def encodeWriteRequest_def write64_def
      write8_def serve_request_def reg_defs store64_other load64_store64_same
      load64_store64_other write_mmio_events_def poll_events_Nil)
  done

lemma read_mmio_mailbox:
  "read_mmio (mailbox_dev f) a s =
     Some (regs (dev s) a,
           s\<lparr>mem := store64 (store64 (store64 ((mem s)(24 := 0)) 25 a) 33 0) 16 (regs (dev s) a),
              dev := (dev s)\<lparr>csr := (csr (dev s))(1 := 1, 3 := 1)\<rparr>,
              trace := trace s @ read_mmio_events a [] (regs (dev s) a)\<rparr>)"
  apply (simp add: read_mmio_def Let_def)
  apply (subst poll_csr_done)
   apply (simp add: getCSR_mailbox)
   apply (simp add: setCSR_def mailbox_dev_def Let_def encodeReadRequest_def write64_def
      write8_def serve_request_def reg_defs store64_other)
  apply (simp add: getCSR_mailbox)
  apply (simp add: setCSR_def mailbox_dev_def Let_def encodeReadRequest_def write64_def
      write8_def serve_request_def reg_defs store64_other load64_store64_same
      load64_store64_other read_mmio_events_def poll_events_Nil decodeResponse_def read64_def)
  done

lemma read_mmio_trace:
  assumes "read_mmio D addr s = Some (v, s')"
  shows "\<exists>vs. 1 \<notin> set vs \<and> trace s' = trace s @ read_mmio_events addr vs v"
    and "v = load64 (mem s') 16"
proof -
  let ?s3 = "setCSR D 1 MMIO_CTRL_REG (encodeReadRequest addr (setCSR D 0 MMIO_READ_STATUS_REG s))"
  from assms obtain s4 where p: "poll_csr D MMIO_READ_STATUS_REG ?s3 = Some s4"
    and d: "decodeResponse s4 = (v, s')"
    by (auto simp: read_mmio_def Let_def split: option.splits)
  from poll_csr_trace[OF p] obtain vs where vs: "1 \<notin> set vs"
    "trace s4 = trace ?s3 @ poll_events MMIO_READ_STATUS_REG vs" by blast
  from d have v: "v = load64 (mem s4) 16" and s': "s' = snd (read64 16 s4)"
    by (auto simp: decodeResponse_def read64_def)
  have "trace s' = trace s @ read_mmio_events addr vs v"
    using vs(2) v s' by (simp add: read_mmio_events_def encodeReadRequest_def)
  with vs(1) show "\<exists>vs. 1 \<notin> set vs \<and> trace s' = trace s @ read_mmio_events addr vs v"
    by blast
  show "v = load64 (mem s') 16" using v s' by simp
qed

lemma write_mmio_trace:
  assumes "write_mmio D addr data s = Some s'"
  shows "\<exists>vs. 1 \<notin> set vs \<and> trace s' = trace s @ write_mmio_events addr data vs"
proof -
  let ?s3 = "setCSR D 1 MMIO_CTRL_REG
               (encodeWriteRequest addr data (setCSR D 0 MMIO_WRITE_STATUS_REG s))"
  from assms have p: "poll_csr D MMIO_WRITE_STATUS_REG ?s3 = Some s'"
    by (simp add: write_mmio_def Let_def)
  from poll_csr_trace[OF p] obtain vs where vs: "1 \<notin> set vs"
    "trace s' = trace ?s3 @ poll_events MMIO_WRITE_STATUS_REG vs" by blast
  have "trace s' = trace s @ write_mmio_events addr data vs"
    using vs(2) by (simp add: write_mmio_events_def encodeWriteRequest_def)
  with vs(1) show ?thesis by blast
qed

section \<open>Traces of the indirect \<open>benchmark_run\<close>\<close>

lemma benchmark_run_phases:
  "benchmark_run D mem_addr ctid s =
     Option.bind (dma_configure_start D mem_addr ctid s) (\<lambda>s1.
       Option.bind (dma_status_poll D 0 s1) (\<lambda>r.
         case r of
           Inl e \<Rightarrow> Some (Inl e)
         | Inr rs \<Rightarrow> Option.bind (dma_finish D (snd rs)) (\<lambda>s2. Some (Inr s2))))"
  by (simp add: benchmark_run_def dma_configure_start_def dma_finish_def Let_def split_def
      cong: sum.case_cong)

lemma dma_finish_trace:
  assumes "dma_finish D s = Some s'"
  shows "\<exists>r1 w2 r3. trace s' = trace s @ finish_events r1 w2 r3"
proof -
  from assms obtain v1 s1 s2 v3 s3 where
    a: "read_mmio D (ucast DMA_STATUS_REG) (print ''DMA Completed!'' [] s) = Some (v1, s1)"
    and b: "write_mmio D (ucast DMA_STATUS_REG) 0 (print ''DMA Status: '' [uint v1] s1) = Some s2"
    and c: "read_mmio D (ucast DMA_TX_LEN_REG) s2 = Some (v3, s3)"
    and d: "s' = print ''DMA TX Length: '' [uint v3] s3"
    by (auto simp: dma_finish_def bind_eq_Some_conv Let_def split: prod.splits)
  from read_mmio_trace(1)[OF a] obtain p1 where
    ta: "trace s1 = trace (print ''DMA Completed!'' [] s)
                    @ read_mmio_events (ucast DMA_STATUS_REG) p1 v1" by blast
  from write_mmio_trace[OF b] obtain p2 where
    tb: "trace s2 = trace (print ''DMA Status: '' [uint v1] s1)
                    @ write_mmio_events (ucast DMA_STATUS_REG) 0 p2" by blast
  from read_mmio_trace(1)[OF c] obtain p3 where
    tc: "trace s3 = trace s2 @ read_mmio_events (ucast DMA_TX_LEN_REG) p3 v3" by blast
  have "trace s' = trace s @ finish_events (p1, v1) p2 (p3, v3)"
    by (simp add: d tc tb ta finish_events_def)
  then show ?thesis by blast
qed

lemma sint_succ: "sint (n::s32) \<noteq> 2147483647 \<Longrightarrow> sint (n + 1) = sint n + 1"
proof -
  assume a: "sint n \<noteq> 2147483647"
  have "sint n < 2 ^ 31" using sint_lt[of n] by simp
  moreover have "- (2 ^ 31) \<le> sint n" using sint_ge[of n] by simp
  ultimately have b: "- (2 ^ 31) \<le> sint n + 1" "sint n + 1 < 2 ^ 31" using a by simp_all
  have "sint (n + 1) = signed_take_bit 31 (sint n + 1)"
    by (simp add: sint_word_ariths)
  also have "\<dots> = sint n + 1" using b by (simp add: signed_take_bit_int_eq_self)
  finally show ?thesis .
qed


lemma dma_status_poll_done:
  "read_mmio D (ucast DMA_STATUS_REG) s = Some (v, s1) \<Longrightarrow> v AND 1 = 1 \<Longrightarrow>
     dma_status_poll D n s = Some (Inr ((1, n), s1))"
  by (subst dma_status_poll.simps) (simp add: Let_def)

lemma dma_status_poll_trace:
  assumes ret: "dma_status_poll D n s = Some (Inr ((st, k), s'))"
  shows "\<exists>its vs v. (\<forall>it \<in> set its. snd it AND 1 \<noteq> 1) \<and> v AND 1 = 1 \<and> st = 1
            \<and> sint k = sint n + int (length its)
            \<and> trace s' = trace s @ dma_poll_events n its
                          @ read_mmio_events (ucast DMA_STATUS_REG) vs v"
proof -
  let ?Q = "\<lambda>n s st k s'.
     \<exists>its vs v. (\<forall>it \<in> set its. snd it AND 1 \<noteq> 1) \<and> v AND 1 = 1 \<and> st = 1
            \<and> sint k = sint n + int (length its)
            \<and> trace s' = trace s @ dma_poll_events n its
                          @ read_mmio_events (ucast DMA_STATUS_REG) vs v"
  let ?P = "\<lambda>(D::'a device) (n::s32) s (r :: error \<times> 'a world + (u64 \<times> s32) \<times> 'a world).
     \<forall>st k s'. r = Inr ((st, k), s') \<longrightarrow> ?Q n s st k s'"
  have "?P D n s (Inr ((st, k), s'))"
  proof (rule dma_status_poll.raw_induct[where P = ?P, OF _ ret])
    fix poll :: "'a device \<Rightarrow> s32 \<Rightarrow> 'a world
                   \<Rightarrow> (error \<times> 'a world + (u64 \<times> s32) \<times> 'a world) option"
      and D n s r
    assume IH: "\<And>D n s r. poll D n s = Some r \<Longrightarrow> ?P D n s r"
      and body: "Option.bind (read_mmio D (ucast DMA_STATUS_REG) s) (\<lambda>vs.
         let status = fst vs AND 1;
             s1 = snd vs
         in if status \<noteq> 1 then
              let s2 = (if sint n mod 1000 = 0
                        then print ''Polling DMA status... count:  val: ''
                               [sint n, uint status] s1
                        else s1)
              in if sint n = 2147483647 then Some (Inl (SignedOverflow, s2))
                 else poll D (n + 1) (sleep_for D 1000 s2)
            else Some (Inr ((status, n), s1))) = Some r"
    from body obtain v s1 where rd: "read_mmio D (ucast DMA_STATUS_REG) s = Some (v, s1)"
      by (auto simp: bind_eq_Some_conv)
    from read_mmio_trace(1)[OF rd] obtain vs where
      t1: "trace s1 = trace s @ read_mmio_events (ucast DMA_STATUS_REG) vs v" by blast
    show "?P D n s r"
    proof (intro allI impI)
      fix st k s' assume r: "r = Inr ((st, k), s')"
      show "?Q n s st k s'"
      proof (cases "v AND 1 = 1")
        case True
        with body rd r have e: "st = 1" "k = n" "s' = s1" by (simp_all add: Let_def)
        have "(\<forall>it \<in> set ([] :: read_obs list). snd it AND 1 \<noteq> 1) \<and> v AND 1 = 1
              \<and> st = 1 \<and> sint k = sint n + int (length ([] :: read_obs list))
              \<and> trace s' = trace s @ dma_poll_events n []
                            @ read_mmio_events (ucast DMA_STATUS_REG) vs v"
          using True e t1 by simp
        then show ?thesis by blast
      next
        case False
        let ?s2 = "if sint n mod 1000 = 0
                   then print ''Polling DMA status... count:  val: ''
                          [sint n, uint (v AND 1)] s1
                   else s1"
        from False body rd r have nomax: "sint n \<noteq> 2147483647"
          by (auto simp: Let_def split: if_splits)
        with False body rd have "poll D (n + 1) (sleep_for D 1000 ?s2) = Some r"
          by (auto simp: Let_def split: if_splits)
        from IH[OF this] r obtain its vs' v' where
          h: "\<forall>it \<in> set its. snd it AND 1 \<noteq> 1" "v' AND 1 = 1" "st = 1"
             "sint k = sint (n + 1) + int (length its)"
             "trace s' = trace (sleep_for D 1000 ?s2) @ dma_poll_events (n + 1) its
                          @ read_mmio_events (ucast DMA_STATUS_REG) vs' v'"
          by blast
        have "(\<forall>it \<in> set ((vs, v) # its). snd it AND 1 \<noteq> 1) \<and> v' AND 1 = 1
              \<and> st = 1 \<and> sint k = sint n + int (length ((vs, v) # its))
              \<and> trace s' = trace s @ dma_poll_events n ((vs, v) # its)
                            @ read_mmio_events (ucast DMA_STATUS_REG) vs' v'"
          using False h t1 sint_succ[OF nomax] by simp
        then show ?thesis by blast
      qed
    qed
  qed
  then show ?thesis by simp
qed


lemma dma_configure_start_trace:
  assumes "dma_configure_start D m c s = Some s'"
  shows "\<exists>r1 r2 r3 r4 g1 g2 w5 r6 w7 r8 w9.
           trace s' = trace s @ configure_start_events m c r1 r2 r3 r4 g1 g2 w5 r6 w7 r8 w9"
proof -
  let ?sa = "setCSR D m MMIO_VADDR_REG (setCSR D c COYOTE_PID_REG s)"
  from assms obtain v1 s1 where
    a1: "read_mmio D (ucast DMA_SRC_ADDR_REG) ?sa = Some (v1, s1)"
    by (auto simp: dma_configure_start_def bind_eq_Some_conv Let_def)
  let ?sb = "print ''DMA Source Address: 0x'' [uint v1] s1"
  from assms a1 obtain v2 s2 where
    a2: "read_mmio D (ucast DMA_DST_ADDR_REG) ?sb = Some (v2, s2)"
    by (auto simp: dma_configure_start_def bind_eq_Some_conv Let_def)
  let ?sc = "print ''DMA Destination Address: 0x'' [uint v2] s2"
  from assms a1 a2 obtain v3 s3 where
    a3: "read_mmio D (ucast DMA_TX_LEN_REG) ?sc = Some (v3, s3)"
    by (auto simp: dma_configure_start_def bind_eq_Some_conv Let_def)
  let ?sd = "print ''DMA TX Length: '' [uint v3] s3"
  from assms a1 a2 a3 obtain v4 s4 where
    a4: "read_mmio D (ucast DMA_STATUS_REG) ?sd = Some (v4, s4)"
    by (auto simp: dma_configure_start_def bind_eq_Some_conv Let_def)
  let ?se = "print ''MMIO VADDR: 0x'' [uint m]
               (print ''Starting H2D DMA Test...'' [] (print ''DMA Status: '' [uint v4] s4))"
  let ?g1 = "fst (getCSR D MMIO_VADDR_REG ?se)"
  let ?sf = "print ''Reading MMIO VADDR: 0x'' [uint ?g1] (snd (getCSR D MMIO_VADDR_REG ?se))"
  let ?g2 = "fst (getCSR D COYOTE_PID_REG ?sf)"
  let ?sg = "print ''Reading coyote PID: '' [uint ?g2] (snd (getCSR D COYOTE_PID_REG ?sf))"
  from assms a1 a2 a3 a4 obtain s5 where
    a5: "write_mmio D (ucast DMA_SRC_ADDR_REG) (m + 4096) ?sg = Some s5"
    by (auto simp: dma_configure_start_def bind_eq_Some_conv Let_def split_def)
  let ?sh = "print ''Set DMA Source Address: 0x'' [uint (m + 4096)] s5"
  from assms a1 a2 a3 a4 a5 obtain v6 s6 where
    a6: "read_mmio D (ucast DMA_SRC_ADDR_REG) ?sh = Some (v6, s6)"
    by (auto simp: dma_configure_start_def bind_eq_Some_conv Let_def split_def)
  let ?si = "print ''Reading DMA Source Address: 0x'' [uint v6] s6"
  from assms a1 a2 a3 a4 a5 a6 obtain s7 where
    a7: "write_mmio D (ucast DMA_LEN_REG) 1024 ?si = Some s7"
    by (auto simp: dma_configure_start_def bind_eq_Some_conv Let_def split_def)
  let ?sj = "print ''Set DMA Length: '' [1024] s7"
  from assms a1 a2 a3 a4 a5 a6 a7 obtain v8 s8 where
    a8: "read_mmio D (ucast DMA_LEN_REG) ?sj = Some (v8, s8)"
    by (auto simp: dma_configure_start_def bind_eq_Some_conv Let_def split_def)
  let ?sk = "print ''Reading DMA LEN: '' [uint v8] s8"
  from assms a1 a2 a3 a4 a5 a6 a7 a8 obtain s9 where
    a9: "write_mmio D (ucast DMA_CMD_REG) 1 ?sk = Some s9"
    and e: "s' = print ''Started DMA (Cmd: 1)'' [] s9"
    by (auto simp: dma_configure_start_def bind_eq_Some_conv Let_def split_def)
  from read_mmio_trace(1)[OF a1] obtain p1 where
    t1: "trace s1 = trace ?sa @ read_mmio_events (ucast DMA_SRC_ADDR_REG) p1 v1" by blast
  from read_mmio_trace(1)[OF a2] obtain p2 where
    t2: "trace s2 = trace ?sb @ read_mmio_events (ucast DMA_DST_ADDR_REG) p2 v2" by blast
  from read_mmio_trace(1)[OF a3] obtain p3 where
    t3: "trace s3 = trace ?sc @ read_mmio_events (ucast DMA_TX_LEN_REG) p3 v3" by blast
  from read_mmio_trace(1)[OF a4] obtain p4 where
    t4: "trace s4 = trace ?sd @ read_mmio_events (ucast DMA_STATUS_REG) p4 v4" by blast
  from write_mmio_trace[OF a5] obtain p5 where
    t5: "trace s5 = trace ?sg @ write_mmio_events (ucast DMA_SRC_ADDR_REG) (m + 4096) p5"
    by blast
  from read_mmio_trace(1)[OF a6] obtain p6 where
    t6: "trace s6 = trace ?sh @ read_mmio_events (ucast DMA_SRC_ADDR_REG) p6 v6" by blast
  from write_mmio_trace[OF a7] obtain p7 where
    t7: "trace s7 = trace ?si @ write_mmio_events (ucast DMA_LEN_REG) 1024 p7" by blast
  from read_mmio_trace(1)[OF a8] obtain p8 where
    t8: "trace s8 = trace ?sj @ read_mmio_events (ucast DMA_LEN_REG) p8 v8" by blast
  from write_mmio_trace[OF a9] obtain p9 where
    t9: "trace s9 = trace ?sk @ write_mmio_events (ucast DMA_CMD_REG) 1 p9" by blast
  have "trace s' = trace s @ configure_start_events m c (p1, v1) (p2, v2) (p3, v3) (p4, v4)
                     ?g1 ?g2 p5 (p6, v6) p7 (p8, v8) p9"
    by (simp add: e t9 t8 t7 t6 t5 t4 t3 t2 t1 configure_start_events_def)
  then show ?thesis by blast
qed

lemma benchmark_run_trace:
  assumes "benchmark_run D m c s = Some (Inr s')"
  shows "\<exists>r1 r2 r3 r4 g1 g2 w5 r6 w7 r8 w9 its vs v f1 f2 f3.
           (\<forall>it \<in> set its. snd it AND 1 \<noteq> 1) \<and> v AND 1 = 1
           \<and> int (length its) < 2 ^ 31
           \<and> trace s' = trace s
                @ configure_start_events m c r1 r2 r3 r4 g1 g2 w5 r6 w7 r8 w9
                @ dma_poll_events 0 its
                @ read_mmio_events (ucast DMA_STATUS_REG) vs v
                @ finish_events f1 f2 f3"
proof -
  from assms obtain s1 r where
    a: "dma_configure_start D m c s = Some s1"
    and b0: "dma_status_poll D 0 s1 = Some r"
    and c0: "(case r of Inl e \<Rightarrow> Some (Inl e)
              | Inr rs \<Rightarrow> Option.bind (dma_finish D (snd rs)) (\<lambda>s2. Some (Inr s2)))
             = Some (Inr s')"
    by (auto simp: benchmark_run_phases bind_eq_Some_conv)
  from c0 obtain rs where rs: "r = Inr rs" and c1: "dma_finish D (snd rs) = Some s'"
    by (cases r) (auto simp: bind_eq_Some_conv)
  obtain st k s2 where "rs = ((st, k), s2)" by (metis prod.collapse)
  with rs b0 c1 have b: "dma_status_poll D 0 s1 = Some (Inr ((st, k), s2))"
    and c: "dma_finish D s2 = Some s'" by simp_all
  from dma_configure_start_trace[OF a] obtain r1 r2 r3 r4 g1 g2 w5 r6 w7 r8 w9 where
    ta: "trace s1 = trace s @ configure_start_events m c r1 r2 r3 r4 g1 g2 w5 r6 w7 r8 w9"
    by blast
  from dma_status_poll_trace[OF b] obtain its vs v where
    its: "\<forall>it \<in> set its. snd it AND 1 \<noteq> 1" and v: "v AND 1 = 1"
    and k: "sint k = sint (0::s32) + int (length its)"
    and tb: "trace s2 = trace s1 @ dma_poll_events 0 its
                        @ read_mmio_events (ucast DMA_STATUS_REG) vs v"
    by blast
  from dma_finish_trace[OF c] obtain f1 f2 f3 where
    tc: "trace s' = trace s2 @ finish_events f1 f2 f3" by blast
  have len: "int (length its) < 2 ^ 31" using k sint_lt[of k] by simp
  have "trace s' = trace s
                @ configure_start_events m c r1 r2 r3 r4 g1 g2 w5 r6 w7 r8 w9
                @ dma_poll_events 0 its
                @ read_mmio_events (ucast DMA_STATUS_REG) vs v
                @ finish_events f1 f2 f3"
    by (simp add: tc tb ta)
  with its v len show ?thesis by blast
qed


section \<open>Traces of the baseline \<open>benchmark_run\<close>\<close>

lemmas jigsaw_reg_defs = Jigsaw_DMA_CMD_REG_def Jigsaw_DMA_SRC_ADDR_REG_def
  Jigsaw_DMA_DST_ADDR_REG_def Jigsaw_DMA_LEN_REG_def Jigsaw_DMA_STATUS_REG_def
  Jigsaw_COYOTE_PID_REG_def Jigsaw_COYOTE_DMA_TX_LEN_REG_def

lemma dump_bytes_props:
  "i \<le> 64 \<Longrightarrow>
   mem (dump_bytes i s) = mem s \<and> dev (dump_bytes i s) = dev s
   \<and> trace (dump_bytes i s) = trace s @ map (\<lambda>j. Print ''%02x '' [uint (mem s j)]) [i..<64]"
proof (induction i s rule: dump_bytes.induct)
  case (1 i s)
  show ?case
  proof (cases "i < 64")
    case True
    then have upt: "[i..<64] = i # [i + 1..<64]" by (simp add: upt_conv_Cons)
    have u: "dump_bytes i s = dump_bytes (i + 1) (print ''%02x '' [uint (mem s i)] s)"
      using True by (subst dump_bytes.simps) simp
    from True have "i + 1 \<le> 64" by simp
    from 1(1)[OF True this] upt show ?thesis by (simp add: u print_def)
  next
    case False
    with 1(2) have "i = 64" by simp
    then show ?thesis by (subst (1 2 3) dump_bytes.simps) simp
  qed
qed

lemma benchmark_run_baseline_trace:
  assumes "benchmark_run_baseline D m c s = Some s'"
  shows "\<exists>vs v1 v2 v3. 1 \<notin> set vs
           \<and> trace s' = trace s @ baseline_setup_events m c
                         @ poll_events Jigsaw_DMA_STATUS_REG vs
                         @ baseline_report_events v1 v2 v3 (mem s')"
proof -
  let ?s5 = "setCSR D 3 Jigsaw_DMA_CMD_REG (setCSR D c Jigsaw_COYOTE_PID_REG
              (setCSR D 32768 Jigsaw_DMA_LEN_REG (setCSR D m Jigsaw_DMA_DST_ADDR_REG
                (setCSR D m Jigsaw_DMA_SRC_ADDR_REG s))))"
  from assms obtain s6 where p: "poll_csr D Jigsaw_DMA_STATUS_REG ?s5 = Some s6"
    by (auto simp: benchmark_run_baseline_def bind_eq_Some_conv Let_def)
  let ?v1 = "fst (getCSR D Jigsaw_DMA_STATUS_REG s6)"
  let ?s7 = "print ''DMA_STATUS_REG: '' [uint ?v1] (snd (getCSR D Jigsaw_DMA_STATUS_REG s6))"
  let ?v2 = "fst (getCSR D Jigsaw_DMA_CMD_REG ?s7)"
  let ?s8 = "print ''DMA_CMD_REG: '' [uint ?v2] (snd (getCSR D Jigsaw_DMA_CMD_REG ?s7))"
  let ?v3 = "fst (getCSR D Jigsaw_COYOTE_DMA_TX_LEN_REG ?s8)"
  let ?s9 = "print ''COYOTE_DMA_TX_LEN_REG: '' [uint ?v3]
               (snd (getCSR D Jigsaw_COYOTE_DMA_TX_LEN_REG ?s8))"
  from assms p have e: "s' = dump_bytes 0 ?s9"
    by (simp add: benchmark_run_baseline_def Let_def split_def)
  from poll_csr_trace[OF p] obtain vs where vs: "1 \<notin> set vs"
    "trace s6 = trace ?s5 @ poll_events Jigsaw_DMA_STATUS_REG vs" by blast
  have d: "mem s' = mem ?s9"
    "trace s' = trace ?s9 @ map (\<lambda>j. Print ''%02x '' [uint (mem ?s9 j)]) [0..<64]"
    using dump_bytes_props[of 0 ?s9] by (simp_all add: e)
  have "trace s' = trace s @ baseline_setup_events m c
                         @ poll_events Jigsaw_DMA_STATUS_REG vs
                         @ baseline_report_events ?v1 ?v2 ?v3 (mem s')"
    by (simp add: d vs(2) baseline_setup_events_def baseline_report_events_def)
  with vs(1) show ?thesis by blast
qed

section \<open>Running the programs against the test doubles\<close>

lemmas dma_reg_defs = DMA_CMD_REG_def DMA_SRC_ADDR_REG_def DMA_DST_ADDR_REG_def
  DMA_LEN_REG_def DMA_STATUS_REG_def DMA_TX_LEN_REG_def

lemma read_mmio_mailbox_rec:
  "read_mmio (mailbox_dev f) a \<lparr>mem = M, dev = \<lparr>csr = C, regs = R\<rparr>, trace = T\<rparr> =
     Some (R a,
           \<lparr>mem = store64 (store64 (store64 (M(24 := 0)) 25 a) 33 0) 16 (R a),
            dev = \<lparr>csr = C(1 := 1, 3 := 1), regs = R\<rparr>,
            trace = T @ read_mmio_events a [] (R a)\<rparr>)"
  by (simp add: read_mmio_mailbox)

lemma write_mmio_mailbox_rec:
  "write_mmio (mailbox_dev f) a v \<lparr>mem = M, dev = \<lparr>csr = C, regs = R\<rparr>, trace = T\<rparr> =
     Some \<lparr>mem = store64 (store64 (store64 (M(24 := 1)) 25 a) 33 0) 41 v,
           dev = \<lparr>csr = C(1 := 1, 2 := 1), regs = f a v R\<rparr>,
           trace = T @ write_mmio_events a v []\<rparr>"
  by (simp add: write_mmio_mailbox)

lemma getCSR_mailbox_rec:
  "getCSR (mailbox_dev f) r \<lparr>mem = M, dev = \<lparr>csr = C, regs = R\<rparr>, trace = T\<rparr> =
     (C r, \<lparr>mem = M, dev = \<lparr>csr = C, regs = R\<rparr>, trace = T @ [GetCSR r (C r)]\<rparr>)"
  by (simp add: getCSR_mailbox)

lemma setCSR_mailbox_rec:
  "r \<noteq> MMIO_CTRL_REG \<or> v \<noteq> 1 \<Longrightarrow>
   setCSR (mailbox_dev f) v r \<lparr>mem = M, dev = \<lparr>csr = C, regs = R\<rparr>, trace = T\<rparr> =
     \<lparr>mem = M, dev = \<lparr>csr = C(r := v), regs = R\<rparr>, trace = T @ [SetCSR v r]\<rparr>"
  by (simp add: setCSR_mailbox)

lemma print_rec:
  "print l v \<lparr>mem = M, dev = d, trace = T\<rparr> = \<lparr>mem = M, dev = d, trace = T @ [Print l v]\<rparr>"
  by (simp add: print_def)

lemma getCSR_direct:
  "getCSR (direct_dev fin tx) r s = (dev s r, s\<lparr>trace := trace s @ [GetCSR r (dev s r)]\<rparr>)"
  by (simp add: getCSR_def direct_dev_def Let_def)

lemma sleep_direct:
  "sleep_for (direct_dev fin tx) ns s = s\<lparr>trace := trace s @ [Sleep ns]\<rparr>"
  by (simp add: sleep_for_def direct_dev_def Let_def)

lemma poll_direct_returns:
  assumes ret: "poll_csr (direct_dev fin tx) r s = Some s'"
  shows "dev s r = 1"
proof -
  let ?P = "\<lambda>(D :: (u32 \<Rightarrow> u64) device) r s (s' :: (u32 \<Rightarrow> u64) world).
               D = direct_dev fin tx \<longrightarrow> dev s r = 1"
  have "?P (direct_dev fin tx) r s s'"
  proof (rule poll_csr.raw_induct[where P = ?P, OF _ ret])
    fix poll :: "(u32 \<Rightarrow> u64) device \<Rightarrow> u32 \<Rightarrow> (u32 \<Rightarrow> u64) world \<Rightarrow> (u32 \<Rightarrow> u64) world option"
      and D r s s'
    assume IH: "\<And>D r s y. poll D r s = Some y \<Longrightarrow> ?P D r s y"
      and body: "(let vs = getCSR D r s
                in if fst vs \<noteq> 1 then poll D r (sleep_for D CLOCK_PERIOD_NS (snd vs))
                   else Some (snd vs)) = Some s'"
    show "?P D r s s'"
    proof
      assume D: "D = direct_dev fin tx"
      show "dev s r = 1"
      proof (rule ccontr)
        assume ne: "dev s r \<noteq> 1"
        with body D have
          "poll D r (s\<lparr>trace := trace s @ [GetCSR r (dev s r)]\<rparr>
                      \<lparr>trace := trace s @ [GetCSR r (dev s r)] @ [Sleep CLOCK_PERIOD_NS]\<rparr>) = Some s'"
          by (simp add: getCSR_direct sleep_direct Let_def)
        from IH[OF this] D have "dev s r = 1" by simp
        with ne show False by simp
      qed
    qed
  qed
  then show ?thesis by simp
qed

lemma poll_direct_stuck: "dev s r \<noteq> 1 \<Longrightarrow> poll_csr (direct_dev fin tx) r s = None"
  using poll_direct_returns[of fin tx r s] by (cases "poll_csr (direct_dev fin tx) r s") auto

lemma setCSR_direct_rec:
  "setCSR (direct_dev fin tx) v r \<lparr>mem = M, dev = C, trace = T\<rparr> =
     \<lparr>mem = M,
      dev = (if r = Jigsaw_DMA_CMD_REG \<and> v AND 1 = 1
             then (C(r := v))(Jigsaw_DMA_STATUS_REG := fin,
                    Jigsaw_COYOTE_DMA_TX_LEN_REG := tx ((C(r := v)) Jigsaw_DMA_LEN_REG))
             else C(r := v)),
      trace = T @ [SetCSR v r]\<rparr>"
  by (simp add: setCSR_def direct_dev_def Let_def)

lemma getCSR_direct_rec:
  "getCSR (direct_dev fin tx) r \<lparr>mem = M, dev = C, trace = T\<rparr> =
     (C r, \<lparr>mem = M, dev = C, trace = T @ [GetCSR r (C r)]\<rparr>)"
  by (simp add: getCSR_direct)

lemma baseline_stuck:
  "fin \<noteq> 1 \<Longrightarrow> benchmark_run_baseline (direct_dev fin tx) m c direct_world0 = None"
  by (simp add: benchmark_run_baseline_def direct_world0_def setCSR_direct_rec Let_def
      jigsaw_reg_defs poll_direct_stuck)

lemma run_dma_dev:
  assumes "fin AND 1 = 1"
  shows "\<exists>s'. benchmark_run (dma_dev fin tx) m c world0 = Some (Inr s')
     \<and> regs (dev s') = (\<lambda>a. 0)(8 := m + 4096, 24 := 1024, 0 := 1, 56 := tx 1024, 32 := 0)
     \<and> trace s' = configure_start_events m c ([], 0) ([], 0) ([], 0) ([], 0) m c
                     [] ([], m + 4096) [] ([], 1024) []
                   @ read_mmio_events (ucast DMA_STATUS_REG) [] fin
                   @ finish_events ([], fin) [] ([], tx 1024)"
  apply (simp add: benchmark_run_phases)
  apply (simp add: dma_configure_start_def dma_dev_def world0_def
      read_mmio_mailbox_rec write_mmio_mailbox_rec getCSR_mailbox_rec setCSR_mailbox_rec
      print_rec reg_defs dma_reg_defs dma_on_write_def Let_def)
  apply (subst dma_status_poll_done)
    apply (simp add: read_mmio_mailbox_rec dma_reg_defs)
   apply (simp add: assms)
  apply (simp add: dma_finish_def
      read_mmio_mailbox_rec write_mmio_mailbox_rec getCSR_mailbox_rec setCSR_mailbox_rec
      print_rec reg_defs dma_reg_defs dma_on_write_def Let_def
      configure_start_events_def finish_events_def)
  done


lemma baseline_run_direct:
  "\<exists>s'. benchmark_run_baseline (direct_dev 1 tx) m c direct_world0 = Some s'
     \<and> dev s' = (\<lambda>r. 0)(1 := m, 2 := m, 3 := 32768, 7 := c, 0 := 3, 4 := 1, 8 := tx 32768)
     \<and> trace s' = baseline_setup_events m c @ poll_events Jigsaw_DMA_STATUS_REG []
                   @ baseline_report_events 1 3 (tx 32768) (\<lambda>i. 0)"
  apply (simp add: benchmark_run_baseline_def direct_world0_def setCSR_direct_rec Let_def
      jigsaw_reg_defs)
  apply (subst poll_csr_done)
   apply (simp add: getCSR_direct_rec)
  apply (simp add: getCSR_direct_rec print_rec dump_bytes_props baseline_setup_events_def
      baseline_report_events_def poll_events_Nil jigsaw_reg_defs)
  done

lemma filter_print_read [simp]: "filter is_print (read_mmio_events a vs v) = []"
  by (induction vs) (simp_all add: read_mmio_events_def poll_events_Nil poll_events_Cons)

lemma filter_print_write [simp]: "filter is_print (write_mmio_events a d vs) = []"
  by (induction vs) (simp_all add: write_mmio_events_def poll_events_Nil poll_events_Cons)

lemma prints_dma_dev:
  assumes "fin AND 1 = 1"
  shows "\<exists>s'. benchmark_run (dma_dev fin tx) m c world0 = Some (Inr s')
     \<and> filter is_print (trace s') =
        [Print ''DMA Source Address: 0x'' [0], Print ''DMA Destination Address: 0x'' [0],
         Print ''DMA TX Length: '' [0], Print ''DMA Status: '' [0],
         Print ''Starting H2D DMA Test...'' [], Print ''MMIO VADDR: 0x'' [uint m],
         Print ''Reading MMIO VADDR: 0x'' [uint m], Print ''Reading coyote PID: '' [uint c],
         Print ''Set DMA Source Address: 0x'' [uint (m + 4096)],
         Print ''Reading DMA Source Address: 0x'' [uint (m + 4096)],
         Print ''Set DMA Length: '' [1024], Print ''Reading DMA LEN: '' [1024],
         Print ''Started DMA (Cmd: 1)'' [], Print ''DMA Completed!'' [],
         Print ''DMA Status: '' [uint fin], Print ''DMA TX Length: '' [uint (tx 1024)]]"
proof -
  from run_dma_dev[OF assms, of tx m c] obtain s' where
    e: "benchmark_run (dma_dev fin tx) m c world0 = Some (Inr s')"
    and t: "trace s' = configure_start_events m c ([], 0) ([], 0) ([], 0) ([], 0) m c
                     [] ([], m + 4096) [] ([], 1024) []
                   @ read_mmio_events (ucast DMA_STATUS_REG) [] fin
                   @ finish_events ([], fin) [] ([], tx 1024)"
    by blast
  show ?thesis
    by (simp add: e t configure_start_events_def finish_events_def)
qed







lemma getCSR_lazy_rec:
  "getCSR (lazy_storage_dev lat) r \<lparr>mem = M, dev = (\<lparr>csr = C, regs = R\<rparr>, n), trace = T\<rparr> =
     (C r, \<lparr>mem = M, dev = (\<lparr>csr = C, regs = R\<rparr>, n), trace = T @ [GetCSR r (C r)]\<rparr>)"
  by (simp add: getCSR_def lazy_storage_dev_def Let_def)

lemma setCSR_lazy_rec:
  "setCSR (lazy_storage_dev lat) v r \<lparr>mem = M, dev = (\<lparr>csr = C, regs = R\<rparr>, n), trace = T\<rparr> =
     \<lparr>mem = M,
      dev = (\<lparr>csr = C(r := v), regs = R\<rparr>, if r = MMIO_CTRL_REG \<and> v = 1 then lat else n),
      trace = T @ [SetCSR v r]\<rparr>"
  by (simp add: setCSR_def lazy_storage_dev_def Let_def)

lemma sleep_lazy_rec:
  "sleep_for (lazy_storage_dev lat) ns
       \<lparr>mem = M, dev = (\<lparr>csr = C, regs = R\<rparr>, n), trace = T\<rparr> =
     (if n = 1
      then \<lparr>mem = fst (serve_request store_only (M, \<lparr>csr = C, regs = R\<rparr>)),
            dev = (snd (serve_request store_only (M, \<lparr>csr = C, regs = R\<rparr>)), 0),
            trace = T @ [Sleep ns]\<rparr>
      else \<lparr>mem = M, dev = (\<lparr>csr = C, regs = R\<rparr>, n - 1), trace = T @ [Sleep ns]\<rparr>)"
  by (simp add: sleep_for_def lazy_storage_dev_def Let_def)

lemma encodeReadRequest_rec:
  "encodeReadRequest a \<lparr>mem = M, dev = d, trace = T\<rparr> =
     \<lparr>mem = store64 (store64 (M(24 := 0)) 25 a) 33 0, dev = d,
      trace = T @ [Store8 24 0, Store64 25 a, Store64 33 0]\<rparr>"
  by (simp add: encodeReadRequest_def write64_def write8_def)

lemma polled_2:
  "polled D r 2 s
     = sleep_for D CLOCK_PERIOD_NS (snd (getCSR D r
         (sleep_for D CLOCK_PERIOD_NS (snd (getCSR D r s)))))"
  by (simp add: numeral_2_eq_2)



section \<open>The mailbox codec\<close>

text \<open>
  C1: in the indirect variant, encoding a write request stores opcode 1 as one byte at
  offset 24 of the buffer, the 8-byte register address at offset 25, an 8-byte length
  of 0 at offset 33 and the 8-byte payload at offset 41; encoding a read request
  stores opcode 0 at offset 24 with the same address and length fields; decoding a
  response reads the 8-byte value at offset 16. These are the field accesses of
  \<open>write_mmio\<close> and \<open>read_mmio\<close>.
\<close>

theorem mailbox_layout:
  "mem (encodeWriteRequest addr data s) 24 = 1
   \<and> load64 (mem (encodeWriteRequest addr data s)) 25 = addr
   \<and> load64 (mem (encodeWriteRequest addr data s)) 33 = 0
   \<and> load64 (mem (encodeWriteRequest addr data s)) 41 = data
   \<and> trace (encodeWriteRequest addr data s)
       = trace s @ [Store8 24 1, Store64 25 addr, Store64 33 0, Store64 41 data]
   \<and> mem (encodeReadRequest addr s) 24 = 0
   \<and> load64 (mem (encodeReadRequest addr s)) 25 = addr
   \<and> load64 (mem (encodeReadRequest addr s)) 33 = 0
   \<and> trace (encodeReadRequest addr s) = trace s @ [Store8 24 0, Store64 25 addr, Store64 33 0]
   \<and> decodeResponse s = read64 16 s
   \<and> fst (decodeResponse s) = load64 (mem s) 16
   \<and> write_mmio D addr data s
       = poll_csr D MMIO_WRITE_STATUS_REG
           (setCSR D 1 MMIO_CTRL_REG
             (encodeWriteRequest addr data (setCSR D 0 MMIO_WRITE_STATUS_REG s)))
   \<and> read_mmio D addr s
       = map_option decodeResponse
           (poll_csr D MMIO_READ_STATUS_REG
             (setCSR D 1 MMIO_CTRL_REG
               (encodeReadRequest addr (setCSR D 0 MMIO_READ_STATUS_REG s))))"
  by (simp add: encodeWriteRequest_def encodeReadRequest_def decodeResponse_def
      write64_def write8_def store64_other load64_store64_same load64_store64_other
      write_mmio_def read_mmio_def Let_def split: option.split)

text \<open>
  C10: encoding a read request changes only the opcode (byte 24), the address (bytes
  25 to 32) and the length (bytes 33 to 40): every other byte of the buffer, and so
  the write-data field at 41 and the response field at 16, keeps its value; the
  device state is untouched and the only events are the three stores.
\<close>

theorem encodeReadRequest_frame:
  "i < 24 \<or> 41 \<le> i \<Longrightarrow>
     mem (encodeReadRequest addr s) i = mem s i
     \<and> load64 (mem (encodeReadRequest addr s)) 41 = load64 (mem s) 41
     \<and> load64 (mem (encodeReadRequest addr s)) 16 = load64 (mem s) 16
     \<and> dev (encodeReadRequest addr s) = dev s
     \<and> trace (encodeReadRequest addr s) = trace s @ [Store8 24 0, Store64 25 addr, Store64 33 0]"
  by (auto simp add: encodeReadRequest_def write64_def write8_def store64_other
      load64_store64_other load64_upd_other)

theorem encodeReadRequest_frame_witness:
  "((41::nat) < 24 \<or> (41::nat) \<le> 41)
   \<and> mem (encodeReadRequest 0x20 (write64 41 0xDEADBEEF world0)) 41 = 0xEF
   \<and> load64 (mem (encodeReadRequest 0x20 (write64 41 0xDEADBEEF world0))) 41 = 0xDEADBEEF"
  using encodeReadRequest_frame [of 41 "0x20" "write64 41 0xDEADBEEF world0"]
  by (simp add: write64_def load64_store64_same) (simp add: store64_def)

section \<open>The proxy client\<close>

text \<open>
  C2: a proxied register read performs, in this order: the read-completion status
  register is cleared to 0; the read request is encoded into the buffer; the mailbox
  control register is set to 1; the read-completion status register is polled, with
  a sleep of one clock period after each read that is not 1, until it reads 1; the
  8-byte response is decoded from offset 16 and returned. The call returns exactly
  when some poll reads 1: if the first \<open>k\<close> polls read something else and the next
  one reads 1, the call returns what is decoded after that poll, and a call that
  returns has done so after such a \<open>k\<close>.
\<close>

theorem read_mmio_sequence:
  "(read_mmio D addr s = None \<longleftrightarrow>
      poll_csr D MMIO_READ_STATUS_REG
        (setCSR D 1 MMIO_CTRL_REG
          (encodeReadRequest addr (setCSR D 0 MMIO_READ_STATUS_REG s))) = None)
   \<and> (\<forall>v s'. read_mmio D addr s = Some (v, s') \<longrightarrow>
         v = load64 (mem s') 16
         \<and> (\<exists>vs. 1 \<notin> set vs
               \<and> trace s' = trace s
                    @ [SetCSR 0 MMIO_READ_STATUS_REG]
                    @ [Store8 24 0, Store64 25 addr, Store64 33 0]
                    @ [SetCSR 1 MMIO_CTRL_REG]
                    @ poll_events MMIO_READ_STATUS_REG vs
                    @ [Load64 16 v])
         \<and> (\<exists>k. (\<forall>j<k. fst (getCSR D MMIO_READ_STATUS_REG
                              (polled D MMIO_READ_STATUS_REG j
                                (setCSR D 1 MMIO_CTRL_REG
                                  (encodeReadRequest addr
                                    (setCSR D 0 MMIO_READ_STATUS_REG s))))) \<noteq> 1)
                \<and> fst (getCSR D MMIO_READ_STATUS_REG
                          (polled D MMIO_READ_STATUS_REG k
                            (setCSR D 1 MMIO_CTRL_REG
                              (encodeReadRequest addr
                                (setCSR D 0 MMIO_READ_STATUS_REG s))))) = 1
                \<and> (v, s') = decodeResponse
                     (snd (getCSR D MMIO_READ_STATUS_REG
                            (polled D MMIO_READ_STATUS_REG k
                              (setCSR D 1 MMIO_CTRL_REG
                                (encodeReadRequest addr
                                  (setCSR D 0 MMIO_READ_STATUS_REG s))))))))
   \<and> (\<forall>k. (\<forall>j<k. fst (getCSR D MMIO_READ_STATUS_REG
                        (polled D MMIO_READ_STATUS_REG j
                          (setCSR D 1 MMIO_CTRL_REG
                            (encodeReadRequest addr
                              (setCSR D 0 MMIO_READ_STATUS_REG s))))) \<noteq> 1)
          \<and> fst (getCSR D MMIO_READ_STATUS_REG
                    (polled D MMIO_READ_STATUS_REG k
                      (setCSR D 1 MMIO_CTRL_REG
                        (encodeReadRequest addr
                          (setCSR D 0 MMIO_READ_STATUS_REG s))))) = 1
          \<longrightarrow> read_mmio D addr s
              = Some (decodeResponse
                       (snd (getCSR D MMIO_READ_STATUS_REG
                              (polled D MMIO_READ_STATUS_REG k
                                (setCSR D 1 MMIO_CTRL_REG
                                  (encodeReadRequest addr
                                    (setCSR D 0 MMIO_READ_STATUS_REG s))))))))"
proof -
  let ?r = MMIO_READ_STATUS_REG
  let ?s3 = "setCSR D 1 MMIO_CTRL_REG
               (encodeReadRequest addr (setCSR D 0 MMIO_READ_STATUS_REG s))"
  have eq: "read_mmio D addr s = map_option decodeResponse (poll_csr D ?r ?s3)"
    by (simp add: read_mmio_def Let_def split: option.split)
  have c1: "read_mmio D addr s = None \<longleftrightarrow> poll_csr D ?r ?s3 = None"
    by (simp add: eq)
  have c2: "v = load64 (mem s') 16
         \<and> (\<exists>vs. 1 \<notin> set vs
               \<and> trace s' = trace s
                    @ [SetCSR 0 MMIO_READ_STATUS_REG]
                    @ [Store8 24 0, Store64 25 addr, Store64 33 0]
                    @ [SetCSR 1 MMIO_CTRL_REG]
                    @ poll_events MMIO_READ_STATUS_REG vs
                    @ [Load64 16 v])
         \<and> (\<exists>k. (\<forall>j<k. fst (getCSR D ?r (polled D ?r j ?s3)) \<noteq> 1)
                \<and> fst (getCSR D ?r (polled D ?r k ?s3)) = 1
                \<and> (v, s') = decodeResponse (snd (getCSR D ?r (polled D ?r k ?s3))))"
    if r: "read_mmio D addr s = Some (v, s')" for v s'
  proof (intro conjI)
    show "v = load64 (mem s') 16" by (rule read_mmio_trace(2)[OF r])
    from read_mmio_trace(1)[OF r]
    show "\<exists>vs. 1 \<notin> set vs
               \<and> trace s' = trace s
                    @ [SetCSR 0 MMIO_READ_STATUS_REG]
                    @ [Store8 24 0, Store64 25 addr, Store64 33 0]
                    @ [SetCSR 1 MMIO_CTRL_REG]
                    @ poll_events MMIO_READ_STATUS_REG vs
                    @ [Load64 16 v]"
      by (simp add: read_mmio_events_def)
    from r eq obtain s4 where p: "poll_csr D ?r ?s3 = Some s4"
      and d: "(v, s') = decodeResponse s4" by (auto simp: map_option_case split: option.splits)
    from poll_csr_returns_polled[OF p] d
    show "\<exists>k. (\<forall>j<k. fst (getCSR D ?r (polled D ?r j ?s3)) \<noteq> 1)
                \<and> fst (getCSR D ?r (polled D ?r k ?s3)) = 1
                \<and> (v, s') = decodeResponse (snd (getCSR D ?r (polled D ?r k ?s3)))"
      by auto
  qed
  have c3: "read_mmio D addr s
              = Some (decodeResponse (snd (getCSR D ?r (polled D ?r k ?s3))))"
    if h: "(\<forall>j<k. fst (getCSR D ?r (polled D ?r j ?s3)) \<noteq> 1)
          \<and> fst (getCSR D ?r (polled D ?r k ?s3)) = 1" for k
  proof -
    from h have "poll_csr D ?r ?s3 = poll_csr D ?r (polled D ?r k ?s3)"
      by (intro poll_csr_after_polled) blast
    also from h have "\<dots> = Some (snd (getCSR D ?r (polled D ?r k ?s3)))"
      by (intro poll_csr_done) blast
    finally show ?thesis by (simp add: eq)
  qed
  from c1 c2 c3 show ?thesis by blast
qed

theorem read_mmio_sequence_witness:
  "read_mmio (lazy_storage_dev 2) 8 timed_world1 \<noteq> None
   \<and> fst (the (read_mmio (lazy_storage_dev 2) 8 timed_world1)) = 0x1000
   \<and> load64 (mem (snd (the (read_mmio (lazy_storage_dev 2) 8 timed_world1)))) 16 = 0x1000
   \<and> trace (snd (the (read_mmio (lazy_storage_dev 2) 8 timed_world1)))
       = [SetCSR 0 3, Store8 24 0, Store64 25 8, Store64 33 0, SetCSR 1 1,
          GetCSR 3 0, Sleep 4, GetCSR 3 0, Sleep 4, GetCSR 3 1,
          Load64 16 0x1000]"
proof -
  let ?D = "lazy_storage_dev 2"
  let ?s3 = "setCSR ?D 1 MMIO_CTRL_REG
               (encodeReadRequest 8 (setCSR ?D 0 MMIO_READ_STATUS_REG timed_world1))"
  note ev = timed_world1_def timed_world0_def setCSR_lazy_rec getCSR_lazy_rec sleep_lazy_rec
    encodeReadRequest_rec reg_defs CLOCK_PERIOD_NS_def serve_request_def store_only_def
    store64_other load64_store64_same load64_store64_other polled_2
  have h: "(\<forall>j<2. fst (getCSR ?D MMIO_READ_STATUS_REG
                        (polled ?D MMIO_READ_STATUS_REG j ?s3)) \<noteq> 1)
          \<and> fst (getCSR ?D MMIO_READ_STATUS_REG
                    (polled ?D MMIO_READ_STATUS_REG 2 ?s3)) = 1"
    by (simp add: less_2_cases_iff ev)
  define res where "res = decodeResponse (snd (getCSR ?D MMIO_READ_STATUS_REG
                                   (polled ?D MMIO_READ_STATUS_REG 2 ?s3)))"
  from read_mmio_sequence [of ?D 8 timed_world1, THEN conjunct2, THEN conjunct2,
      rule_format, OF h]
  have e: "read_mmio ?D 8 timed_world1 = Some res" by (simp add: res_def)
  have "fst res = 0x1000" "load64 (mem (snd res)) 16 = 0x1000"
    "trace (snd res) = [SetCSR 0 3, Store8 24 0, Store64 25 8, Store64 33 0, SetCSR 1 1,
          GetCSR 3 0, Sleep 4, GetCSR 3 0, Sleep 4, GetCSR 3 1,
          Load64 16 0x1000]"
    by (simp_all add: res_def decodeResponse_def read64_def ev)
  then show ?thesis by (simp add: e)
qed

text \<open>
  C3: for a proxied write and for a proxied read, the request fields (opcode, address,
  length, and the payload of a write) are stored in the buffer before the mailbox
  control register is set to 1: the state from which the completion status is polled
  has exactly the status clear, the field stores and the trigger behind it, in this
  order, and when the call returns nothing after the trigger is a store to the buffer
  or another trigger.
\<close>

theorem write_before_trigger:
  "(\<exists>s3. write_mmio D addr data s = poll_csr D MMIO_WRITE_STATUS_REG s3
          \<and> trace s3 = trace s @ [SetCSR 0 MMIO_WRITE_STATUS_REG,
                                  Store8 24 1, Store64 25 addr, Store64 33 0, Store64 41 data,
                                  SetCSR 1 MMIO_CTRL_REG])
   \<and> (\<exists>s3. read_mmio D addr s = map_option decodeResponse (poll_csr D MMIO_READ_STATUS_REG s3)
          \<and> trace s3 = trace s @ [SetCSR 0 MMIO_READ_STATUS_REG,
                                  Store8 24 0, Store64 25 addr, Store64 33 0,
                                  SetCSR 1 MMIO_CTRL_REG])
   \<and> (\<forall>s'. write_mmio D addr data s = Some s' \<longrightarrow>
         (\<exists>post. trace s' = trace s @ [SetCSR 0 MMIO_WRITE_STATUS_REG,
                                       Store8 24 1, Store64 25 addr, Store64 33 0,
                                       Store64 41 data,
                                       SetCSR 1 MMIO_CTRL_REG] @ post
                 \<and> (\<forall>e \<in> set post. \<not> is_store e \<and> e \<noteq> SetCSR 1 MMIO_CTRL_REG)))
   \<and> (\<forall>v s'. read_mmio D addr s = Some (v, s') \<longrightarrow>
         (\<exists>post. trace s' = trace s @ [SetCSR 0 MMIO_READ_STATUS_REG,
                                       Store8 24 0, Store64 25 addr, Store64 33 0,
                                       SetCSR 1 MMIO_CTRL_REG] @ post
                 \<and> (\<forall>e \<in> set post. \<not> is_store e \<and> e \<noteq> SetCSR 1 MMIO_CTRL_REG)))"
proof (intro conjI allI impI)
  let ?w = "setCSR D 1 MMIO_CTRL_REG
              (encodeWriteRequest addr data (setCSR D 0 MMIO_WRITE_STATUS_REG s))"
  have "write_mmio D addr data s = poll_csr D MMIO_WRITE_STATUS_REG ?w"
    by (simp add: write_mmio_def Let_def)
  moreover have "trace ?w = trace s @ [SetCSR 0 MMIO_WRITE_STATUS_REG,
                                  Store8 24 1, Store64 25 addr, Store64 33 0, Store64 41 data,
                                  SetCSR 1 MMIO_CTRL_REG]"
    by (simp add: encodeWriteRequest_def)
  ultimately show "\<exists>s3. write_mmio D addr data s = poll_csr D MMIO_WRITE_STATUS_REG s3
          \<and> trace s3 = trace s @ [SetCSR 0 MMIO_WRITE_STATUS_REG,
                                  Store8 24 1, Store64 25 addr, Store64 33 0, Store64 41 data,
                                  SetCSR 1 MMIO_CTRL_REG]"
    by blast
next
  let ?r = "setCSR D 1 MMIO_CTRL_REG
              (encodeReadRequest addr (setCSR D 0 MMIO_READ_STATUS_REG s))"
  have "read_mmio D addr s = map_option decodeResponse (poll_csr D MMIO_READ_STATUS_REG ?r)"
    by (simp add: read_mmio_def Let_def split: option.split)
  moreover have "trace ?r = trace s @ [SetCSR 0 MMIO_READ_STATUS_REG,
                                  Store8 24 0, Store64 25 addr, Store64 33 0,
                                  SetCSR 1 MMIO_CTRL_REG]"
    by (simp add: encodeReadRequest_def)
  ultimately show "\<exists>s3. read_mmio D addr s
            = map_option decodeResponse (poll_csr D MMIO_READ_STATUS_REG s3)
          \<and> trace s3 = trace s @ [SetCSR 0 MMIO_READ_STATUS_REG,
                                  Store8 24 0, Store64 25 addr, Store64 33 0,
                                  SetCSR 1 MMIO_CTRL_REG]"
    by blast
next
  fix s' assume "write_mmio D addr data s = Some s'"
  from write_mmio_trace[OF this] obtain vs where
    t: "trace s' = trace s @ write_mmio_events addr data vs" by blast
  show "\<exists>post. trace s' = trace s @ [SetCSR 0 MMIO_WRITE_STATUS_REG,
                                       Store8 24 1, Store64 25 addr, Store64 33 0,
                                       Store64 41 data,
                                       SetCSR 1 MMIO_CTRL_REG] @ post
                 \<and> (\<forall>e \<in> set post. \<not> is_store e \<and> e \<noteq> SetCSR 1 MMIO_CTRL_REG)"
  proof (intro exI conjI ballI)
    show "trace s' = trace s @ [SetCSR 0 MMIO_WRITE_STATUS_REG,
                                       Store8 24 1, Store64 25 addr, Store64 33 0,
                                       Store64 41 data,
                                       SetCSR 1 MMIO_CTRL_REG] @ poll_events MMIO_WRITE_STATUS_REG vs"
      using t by (simp add: write_mmio_events_def)
  next
    fix e assume e: "e \<in> set (poll_events MMIO_WRITE_STATUS_REG vs)"
    from poll_events_no_store[OF e] show "\<not> is_store e" by blast
    from poll_events_no_store[OF e] show "e \<noteq> SetCSR 1 MMIO_CTRL_REG" by blast
  qed
next
  fix v s' assume "read_mmio D addr s = Some (v, s')"
  from read_mmio_trace(1)[OF this] obtain vs where
    t: "trace s' = trace s @ read_mmio_events addr vs v" by blast
  show "\<exists>post. trace s' = trace s @ [SetCSR 0 MMIO_READ_STATUS_REG,
                                       Store8 24 0, Store64 25 addr, Store64 33 0,
                                       SetCSR 1 MMIO_CTRL_REG] @ post
                 \<and> (\<forall>e \<in> set post. \<not> is_store e \<and> e \<noteq> SetCSR 1 MMIO_CTRL_REG)"
  proof (intro exI conjI ballI)
    show "trace s' = trace s @ [SetCSR 0 MMIO_READ_STATUS_REG,
                                       Store8 24 0, Store64 25 addr, Store64 33 0,
                                       SetCSR 1 MMIO_CTRL_REG]
                     @ (poll_events MMIO_READ_STATUS_REG vs @ [Load64 16 v])"
      using t by (simp add: read_mmio_events_def)
  next
    fix e assume e: "e \<in> set (poll_events MMIO_READ_STATUS_REG vs @ [Load64 16 v])"
    then consider "e \<in> set (poll_events MMIO_READ_STATUS_REG vs)" | "e = Load64 16 v" by auto
    then show "\<not> is_store e"
      by cases (use poll_events_no_store in auto)
    from e consider "e \<in> set (poll_events MMIO_READ_STATUS_REG vs)" | "e = Load64 16 v" by auto
    then show "e \<noteq> SetCSR 1 MMIO_CTRL_REG"
      by cases (use poll_events_no_store in auto)
  qed
qed

theorem write_before_trigger_witness:
  "write_mmio storage_dev 8 0x1000 world0 \<noteq> None
   \<and> trace (the (write_mmio storage_dev 8 0x1000 world0))
       = [SetCSR 0 2, Store8 24 1, Store64 25 8, Store64 33 0, Store64 41 0x1000, SetCSR 1 1]
         @ [GetCSR 2 1]
   \<and> read_mmio storage_dev 8 world1 \<noteq> None
   \<and> trace (snd (the (read_mmio storage_dev 8 world1)))
       = [SetCSR 0 3, Store8 24 0, Store64 25 8, Store64 33 0, SetCSR 1 1]
         @ [GetCSR 3 1, Load64 16 0x1000]
   \<and> \<not> is_store (GetCSR 3 1) \<and> \<not> is_store (Load64 16 0x1000)"
proof -
  define w where "w = the (write_mmio storage_dev 8 0x1000 world0)"
  define r where "r = snd (the (read_mmio storage_dev 8 world1))"
  have ew: "write_mmio storage_dev 8 0x1000 world0 = Some w"
    by (simp add: w_def storage_dev_def write_mmio_mailbox)
  have er: "read_mmio storage_dev 8 world1 = Some (0x1000, r)"
    by (simp add: r_def storage_dev_def read_mmio_mailbox world1_def world0_def)
  have tw: "trace w = [SetCSR 0 2, Store8 24 1, Store64 25 8, Store64 33 0, Store64 41 0x1000,
                       SetCSR 1 1] @ [GetCSR 2 1]"
    by (simp add: w_def storage_dev_def write_mmio_mailbox world0_def write_mmio_events_def
        poll_events_Nil reg_defs)
  have tr: "trace r = [SetCSR 0 3, Store8 24 0, Store64 25 8, Store64 33 0, SetCSR 1 1]
                      @ [GetCSR 3 1, Load64 16 0x1000]"
    by (simp add: r_def storage_dev_def read_mmio_mailbox world1_def world0_def
        read_mmio_events_def poll_events_Nil reg_defs)
  note inst = write_before_trigger [of storage_dev 8 "0x1000" world0]
  from inst [THEN conjunct2, THEN conjunct2, THEN conjunct1, rule_format, OF ew]
  obtain post where "trace w = trace world0 @ [SetCSR 0 MMIO_WRITE_STATUS_REG,
                                       Store8 24 1, Store64 25 8, Store64 33 0,
                                       Store64 41 0x1000,
                                       SetCSR 1 MMIO_CTRL_REG] @ post"
    and "\<forall>e \<in> set post. \<not> is_store e \<and> e \<noteq> SetCSR 1 MMIO_CTRL_REG" by blast
  then have "post = [GetCSR 2 1]" using tw by (simp add: world0_def reg_defs)
  moreover have "write_mmio storage_dev 8 0x1000 world0 \<noteq> None" using ew by simp
  moreover have "read_mmio storage_dev 8 world1 \<noteq> None" using er by simp
  ultimately show ?thesis
    using tw[unfolded w_def] tr[unfolded r_def] by (simp add: reg_defs)
qed

text \<open>
  C8: with the device modelled as pure storage, \<open>write_mmio(R, V)\<close> followed by
  \<open>read_mmio(R)\<close> returns \<open>V\<close>, for every register address, value and start state
  (both calls return).
\<close>

theorem mmio_roundtrip:
  "map_option fst (Option.bind (write_mmio storage_dev R V s) (read_mmio storage_dev R)) = Some V"
  by (simp add: storage_dev_def write_mmio_mailbox read_mmio_mailbox store_only_def)

section \<open>The DMA engine controller\<close>

text \<open>
  C4, as the code has it: in the indirect variant the status loop tests bit 0 of the
  value read through the mask \<open>0x1\<close>, so a read with bit 0 set ends the wait whatever
  its other bits, and a run that returns has seen such a read just before it reports
  completion; in the baseline variant the loop compares the whole register with 1, so
  a read of any other value is followed by a sleep and another poll, and a run that
  returns has polled until the register read exactly 1.
\<close>

theorem dma_completion_test:
  "(\<forall>v s1 n. read_mmio D (ucast DMA_STATUS_REG) s = Some (v, s1) \<and> v AND 1 = 1 \<longrightarrow>
              dma_status_poll D n s = Some (Inr ((1, n), s1)))
   \<and> (\<forall>s'. benchmark_run D m c s = Some (Inr s') \<longrightarrow>
         (\<exists>t1 vs v t2. v AND 1 = 1
            \<and> trace s' = trace s @ t1 @ read_mmio_events (ucast DMA_STATUS_REG) vs v
                          @ [Print ''DMA Completed!'' []] @ t2))
   \<and> (fst (getCSR D Jigsaw_DMA_STATUS_REG s) \<noteq> 1 \<longrightarrow>
         poll_csr D Jigsaw_DMA_STATUS_REG s
         = poll_csr D Jigsaw_DMA_STATUS_REG
             (sleep_for D CLOCK_PERIOD_NS (snd (getCSR D Jigsaw_DMA_STATUS_REG s))))
   \<and> (\<forall>s'. benchmark_run_baseline D m c s = Some s' \<longrightarrow>
         (\<exists>vs t2. 1 \<notin> set vs
            \<and> trace s' = trace s @ baseline_setup_events m c
                          @ poll_events Jigsaw_DMA_STATUS_REG vs @ t2))"
proof (intro conjI allI impI)
  fix v s1 n
  assume "read_mmio D (ucast DMA_STATUS_REG) s = Some (v, s1) \<and> v AND 1 = 1"
  then show "dma_status_poll D n s = Some (Inr ((1, n), s1))"
    by (simp add: dma_status_poll_done)
next
  fix s' assume "benchmark_run D m c s = Some (Inr s')"
  from benchmark_run_trace[OF this]
  obtain r1 r2 r3 r4 g1 g2 w5 r6 w7 r8 w9 its vs v f1 f2 f3 where
    v: "v AND 1 = 1"
    and t: "trace s' = trace s
                @ configure_start_events m c r1 r2 r3 r4 g1 g2 w5 r6 w7 r8 w9
                @ dma_poll_events 0 its
                @ read_mmio_events (ucast DMA_STATUS_REG) vs v
                @ finish_events f1 f2 f3"
    by blast
  let ?t1 = "configure_start_events m c r1 r2 r3 r4 g1 g2 w5 r6 w7 r8 w9 @ dma_poll_events 0 its"
  let ?t2 = "tl (finish_events f1 f2 f3)"
  have "trace s' = trace s @ ?t1 @ read_mmio_events (ucast DMA_STATUS_REG) vs v
                          @ [Print ''DMA Completed!'' []] @ ?t2"
    by (simp add: t finish_events_def)
  with v show "\<exists>t1 vs v t2. v AND 1 = 1
            \<and> trace s' = trace s @ t1 @ read_mmio_events (ucast DMA_STATUS_REG) vs v
                          @ [Print ''DMA Completed!'' []] @ t2"
    by blast
next
  assume "fst (getCSR D Jigsaw_DMA_STATUS_REG s) \<noteq> 1"
  then show "poll_csr D Jigsaw_DMA_STATUS_REG s
         = poll_csr D Jigsaw_DMA_STATUS_REG
             (sleep_for D CLOCK_PERIOD_NS (snd (getCSR D Jigsaw_DMA_STATUS_REG s)))"
    by (rule poll_csr_step)
next
  fix s' assume "benchmark_run_baseline D m c s = Some s'"
  from benchmark_run_baseline_trace[OF this]
  show "\<exists>vs t2. 1 \<notin> set vs
            \<and> trace s' = trace s @ baseline_setup_events m c
                          @ poll_events Jigsaw_DMA_STATUS_REG vs @ t2"
    by blast
qed

theorem dma_completion_test_witness:
  "benchmark_run (dma_dev 3 (\<lambda>n. n)) 0x10000 1 world0 \<noteq> None
   \<and> \<not> isl (the (benchmark_run (dma_dev 3 (\<lambda>n. n)) 0x10000 1 world0))
   \<and> (\<exists>t1 vs v t2. v AND 1 = 1
          \<and> trace (projr (the (benchmark_run (dma_dev 3 (\<lambda>n. n)) 0x10000 1 world0)))
            = trace world0 @ t1 @ read_mmio_events (ucast DMA_STATUS_REG) vs v
              @ [Print ''DMA Completed!'' []] @ t2)
   \<and> fst (getCSR (direct_dev 3 (\<lambda>n. n)) Jigsaw_DMA_STATUS_REG
            (direct_world0\<lparr>dev := (\<lambda>r. 0)(4 := 3)\<rparr>)) = 3
   \<and> poll_csr (direct_dev 3 (\<lambda>n. n)) Jigsaw_DMA_STATUS_REG
        (direct_world0\<lparr>dev := (\<lambda>r. 0)(4 := 3)\<rparr>) = None"
proof -
  have "(3::u64) AND 1 = 1" by simp
  from run_dma_dev[OF this, of "\<lambda>n. n" "0x10000" 1]
  obtain s' where e: "benchmark_run (dma_dev 3 (\<lambda>n. n)) 0x10000 1 world0 = Some (Inr s')"
    by blast
  from dma_completion_test [of "dma_dev 3 (\<lambda>n. n)" world0 "0x10000" 1,
      THEN conjunct2, THEN conjunct1, rule_format, OF e]
  have "\<exists>t1 vs v t2. v AND 1 = 1
          \<and> trace s' = trace world0 @ t1 @ read_mmio_events (ucast DMA_STATUS_REG) vs v
              @ [Print ''DMA Completed!'' []] @ t2" .
  moreover have "fst (getCSR (direct_dev 3 (\<lambda>n. n)) Jigsaw_DMA_STATUS_REG
            (direct_world0\<lparr>dev := (\<lambda>r. 0)(4 := 3)\<rparr>)) = 3"
    by (simp add: getCSR_direct jigsaw_reg_defs direct_world0_def)
  moreover have "poll_csr (direct_dev 3 (\<lambda>n. n)) Jigsaw_DMA_STATUS_REG
        (direct_world0\<lparr>dev := (\<lambda>r. 0)(4 := 3)\<rparr>) = None"
    by (rule poll_direct_stuck) (simp add: jigsaw_reg_defs direct_world0_def)
  ultimately show ?thesis using e by simp
qed

text \<open>
  C4 as stated fails for the baseline: with a status register that reads 3 once the
  transfer is done (bit 0 set, together with bit 1), the baseline run never returns,
  while the indirect run against the same kind of engine does.
\<close>

theorem dma_completion_mask_counterexample:
  "(3::u64) AND 1 = 1
   \<and> benchmark_run_baseline (direct_dev 3 (\<lambda>n. n)) 0x10000 1 direct_world0 = None
   \<and> benchmark_run (dma_dev 3 (\<lambda>n. n)) 0x10000 1 world0 \<noteq> None
   \<and> \<not> isl (the (benchmark_run (dma_dev 3 (\<lambda>n. n)) 0x10000 1 world0))"
proof -
  have a: "(3::u64) AND 1 = 1" by simp
  have "benchmark_run_baseline (direct_dev 3 (\<lambda>n. n)) 0x10000 1 direct_world0 = None"
    by (rule baseline_stuck) simp
  moreover from run_dma_dev[OF a, of "\<lambda>n. n" "0x10000" 1]
  have "benchmark_run (dma_dev 3 (\<lambda>n. n)) 0x10000 1 world0 \<noteq> None
   \<and> \<not> isl (the (benchmark_run (dma_dev 3 (\<lambda>n. n)) 0x10000 1 world0))" by auto
  ultimately show ?thesis using a by simp
qed

text \<open>
  C5, as the code has it: in the indirect variant, after the status read with bit 0
  set and the line \<open>DMA Completed!\<close>, the controller reads the status register once
  more, prints it, and writes 0 to the DMA status register by a proxied write before
  the sequence goes on to its end; the baseline variant writes five registers (source,
  destination, length, process id, command) and never its DMA status register.
\<close>

theorem status_clear_after_completion:
  "(\<forall>s'. benchmark_run D m c s = Some (Inr s') \<longrightarrow>
      (\<exists>t1 vs v r1 w2 t3. v AND 1 = 1
         \<and> trace s' = trace s @ t1
              @ read_mmio_events (ucast DMA_STATUS_REG) vs v
              @ [Print ''DMA Completed!'' []]
              @ read_mmio_events (ucast DMA_STATUS_REG) (fst r1) (snd r1)
              @ [Print ''DMA Status: '' [uint (snd r1)]]
              @ write_mmio_events (ucast DMA_STATUS_REG) 0 w2
              @ t3))
   \<and> (\<forall>s'. benchmark_run_baseline D m c s = Some s' \<longrightarrow>
      (\<exists>t. trace s' = trace s @ t
         \<and> filter is_setCSR t = baseline_setup_events m c))"
proof (intro conjI allI impI)
  fix s' assume "benchmark_run D m c s = Some (Inr s')"
  from benchmark_run_trace[OF this]
  obtain r1 r2 r3 r4 g1 g2 w5 r6 w7 r8 w9 its vs v f1 f2 f3 where
    v: "v AND 1 = 1"
    and t: "trace s' = trace s
                @ configure_start_events m c r1 r2 r3 r4 g1 g2 w5 r6 w7 r8 w9
                @ dma_poll_events 0 its
                @ read_mmio_events (ucast DMA_STATUS_REG) vs v
                @ finish_events f1 f2 f3"
    by blast
  let ?t1 = "configure_start_events m c r1 r2 r3 r4 g1 g2 w5 r6 w7 r8 w9 @ dma_poll_events 0 its"
  let ?t3 = "read_mmio_events (ucast DMA_TX_LEN_REG) (fst f3) (snd f3)
             @ [Print ''DMA TX Length: '' [uint (snd f3)]]"
  have "trace s' = trace s @ ?t1
              @ read_mmio_events (ucast DMA_STATUS_REG) vs v
              @ [Print ''DMA Completed!'' []]
              @ read_mmio_events (ucast DMA_STATUS_REG) (fst f1) (snd f1)
              @ [Print ''DMA Status: '' [uint (snd f1)]]
              @ write_mmio_events (ucast DMA_STATUS_REG) 0 f2
              @ ?t3"
    by (simp add: t finish_events_def)
  with v show "\<exists>t1 vs v r1 w2 t3. v AND 1 = 1
         \<and> trace s' = trace s @ t1
              @ read_mmio_events (ucast DMA_STATUS_REG) vs v
              @ [Print ''DMA Completed!'' []]
              @ read_mmio_events (ucast DMA_STATUS_REG) (fst r1) (snd r1)
              @ [Print ''DMA Status: '' [uint (snd r1)]]
              @ write_mmio_events (ucast DMA_STATUS_REG) 0 w2
              @ t3"
    by blast
next
  fix s' assume "benchmark_run_baseline D m c s = Some s'"
  from benchmark_run_baseline_trace[OF this] obtain vs v1 v2 v3 where
    t: "trace s' = trace s @ baseline_setup_events m c
                         @ poll_events Jigsaw_DMA_STATUS_REG vs
                         @ baseline_report_events v1 v2 v3 (mem s')"
    by blast
  have p: "filter is_setCSR (poll_events Jigsaw_DMA_STATUS_REG vs) = []"
    by (induction vs) (simp_all add: poll_events_Nil poll_events_Cons)
  have r: "filter is_setCSR (baseline_report_events v1 v2 v3 (mem s')) = []"
    by (simp add: baseline_report_events_def filter_empty_conv)
  have "filter is_setCSR (baseline_setup_events m c
                         @ poll_events Jigsaw_DMA_STATUS_REG vs
                         @ baseline_report_events v1 v2 v3 (mem s'))
        = baseline_setup_events m c"
    by (simp add: p r) (simp add: baseline_setup_events_def)
  with t show "\<exists>t. trace s' = trace s @ t \<and> filter is_setCSR t = baseline_setup_events m c"
    by blast
qed

theorem status_clear_after_completion_witness:
  "benchmark_run (dma_dev 1 (\<lambda>n. n)) 0x10000 1 world0 \<noteq> None
   \<and> \<not> isl (the (benchmark_run (dma_dev 1 (\<lambda>n. n)) 0x10000 1 world0))
   \<and> (\<exists>t1 vs v r1 w2 t3. v AND 1 = 1
         \<and> trace (projr (the (benchmark_run (dma_dev 1 (\<lambda>n. n)) 0x10000 1 world0)))
            = trace world0 @ t1
              @ read_mmio_events (ucast DMA_STATUS_REG) vs v
              @ [Print ''DMA Completed!'' []]
              @ read_mmio_events (ucast DMA_STATUS_REG) (fst r1) (snd r1)
              @ [Print ''DMA Status: '' [uint (snd r1)]]
              @ write_mmio_events (ucast DMA_STATUS_REG) 0 w2
              @ t3)
   \<and> regs (dev (projr (the (benchmark_run (dma_dev 1 (\<lambda>n. n)) 0x10000 1 world0))))
        (ucast DMA_STATUS_REG) = 0"
proof -
  have "(1::u64) AND 1 = 1" by simp
  from run_dma_dev[OF this, of "\<lambda>n. n" "0x10000" 1]
  obtain s' where e: "benchmark_run (dma_dev 1 (\<lambda>n. n)) 0x10000 1 world0 = Some (Inr s')"
    and r: "regs (dev s') = (\<lambda>a. 0)(8 := 0x10000 + 4096, 24 := 1024, 0 := 1, 56 := 1024, 32 := 0)"
    by blast
  from status_clear_after_completion [of "dma_dev 1 (\<lambda>n. n)" "0x10000" 1 world0,
      THEN conjunct1, rule_format, OF e]
  have "\<exists>t1 vs v r1 w2 t3. v AND 1 = 1
         \<and> trace s' = trace world0 @ t1
              @ read_mmio_events (ucast DMA_STATUS_REG) vs v
              @ [Print ''DMA Completed!'' []]
              @ read_mmio_events (ucast DMA_STATUS_REG) (fst r1) (snd r1)
              @ [Print ''DMA Status: '' [uint (snd r1)]]
              @ write_mmio_events (ucast DMA_STATUS_REG) 0 w2
              @ t3" .
  moreover have "regs (dev s') (ucast DMA_STATUS_REG) = 0"
    by (simp add: r dma_reg_defs)
  ultimately show ?thesis using e by simp
qed

text \<open>
  C5 as stated fails for the baseline: a complete baseline run writes no register
  but the five of its configuration, and the status register still reads 1 after it.
\<close>

theorem status_clear_counterexample:
  "benchmark_run_baseline (direct_dev 1 (\<lambda>n. n)) 0x10000 1 direct_world0 \<noteq> None
   \<and> filter is_setCSR
        (trace (the (benchmark_run_baseline (direct_dev 1 (\<lambda>n. n)) 0x10000 1 direct_world0)))
      = [SetCSR 0x10000 1, SetCSR 0x10000 2, SetCSR 32768 3, SetCSR 1 7, SetCSR 3 0]
   \<and> dev (the (benchmark_run_baseline (direct_dev 1 (\<lambda>n. n)) 0x10000 1 direct_world0))
        Jigsaw_DMA_STATUS_REG = 1"
proof -
  from baseline_run_direct[of "\<lambda>n. n" "0x10000" 1]
  obtain s' where
    e: "benchmark_run_baseline (direct_dev 1 (\<lambda>n. n)) 0x10000 1 direct_world0 = Some s'"
    and d: "dev s' = (\<lambda>r. 0)(1 := 0x10000, 2 := 0x10000, 3 := 32768, 7 := 1, 0 := 3,
                               4 := 1, 8 := 32768)"
    and t: "trace s' = baseline_setup_events 0x10000 1 @ poll_events Jigsaw_DMA_STATUS_REG []
                   @ baseline_report_events 1 3 32768 (\<lambda>i. 0)"
    by blast
  have "filter is_setCSR (trace s')
        = [SetCSR 0x10000 1, SetCSR 0x10000 2, SetCSR 32768 3, SetCSR 1 7, SetCSR 3 0]"
    by (simp add: t baseline_setup_events_def poll_events_Nil baseline_report_events_def
        jigsaw_reg_defs filter_empty_conv)
  moreover have "dev s' Jigsaw_DMA_STATUS_REG = 1" by (simp add: d jigsaw_reg_defs)
  ultimately show ?thesis using e by simp
qed

text \<open>
  C6, as the code has it: after the transfer both variants read the
  transferred-length register and print the value read, and that is all: the indirect
  run ends with this line, the baseline run goes on to dump the first 64 bytes of the
  buffer. No comparison with the requested length is made and nothing is reported
  about a difference: against an engine that finishes at once, the console lines of
  a run are those of the run with matching lengths, but for the number in the last
  line, whatever length the engine reports.
\<close>

theorem tx_length_reported:
  "(\<forall>s'. benchmark_run D m c s = Some (Inr s') \<longrightarrow>
      (\<exists>t vs v. trace s' = trace s @ t
                   @ read_mmio_events (ucast DMA_TX_LEN_REG) vs v
                   @ [Print ''DMA TX Length: '' [uint v]]))
   \<and> (\<forall>s'. benchmark_run_baseline D m c s = Some s' \<longrightarrow>
      (\<exists>t v. trace s' = trace s @ t
                @ [GetCSR Jigsaw_COYOTE_DMA_TX_LEN_REG v,
                   Print ''COYOTE_DMA_TX_LEN_REG: '' [uint v]]
                @ map (\<lambda>i. Print ''%02x '' [uint (mem s' i)]) [0..<64]))
   \<and> (\<forall>tx. benchmark_run (dma_dev 1 tx) m c world0 \<noteq> None
          \<and> \<not> isl (the (benchmark_run (dma_dev 1 tx) m c world0))
          \<and> filter is_print (trace (projr (the (benchmark_run (dma_dev 1 tx) m c world0))))
            = butlast (filter is_print
                (trace (projr (the (benchmark_run (dma_dev 1 (\<lambda>n. n)) m c world0)))))
              @ [Print ''DMA TX Length: '' [uint (tx 1024)]])"
proof (intro conjI allI impI)
  fix s' assume "benchmark_run D m c s = Some (Inr s')"
  from benchmark_run_trace[OF this]
  obtain r1 r2 r3 r4 g1 g2 w5 r6 w7 r8 w9 its vs v f1 f2 f3 where
    t: "trace s' = trace s
                @ configure_start_events m c r1 r2 r3 r4 g1 g2 w5 r6 w7 r8 w9
                @ dma_poll_events 0 its
                @ read_mmio_events (ucast DMA_STATUS_REG) vs v
                @ finish_events f1 f2 f3"
    by blast
  let ?t = "configure_start_events m c r1 r2 r3 r4 g1 g2 w5 r6 w7 r8 w9
                @ dma_poll_events 0 its
                @ read_mmio_events (ucast DMA_STATUS_REG) vs v
                @ [Print ''DMA Completed!'' []]
                @ read_mmio_events (ucast DMA_STATUS_REG) (fst f1) (snd f1)
                @ [Print ''DMA Status: '' [uint (snd f1)]]
                @ write_mmio_events (ucast DMA_STATUS_REG) 0 f2"
  have "trace s' = trace s @ ?t
                   @ read_mmio_events (ucast DMA_TX_LEN_REG) (fst f3) (snd f3)
                   @ [Print ''DMA TX Length: '' [uint (snd f3)]]"
    by (simp add: t finish_events_def)
  then show "\<exists>t vs v. trace s' = trace s @ t
                   @ read_mmio_events (ucast DMA_TX_LEN_REG) vs v
                   @ [Print ''DMA TX Length: '' [uint v]]"
    by blast
next
  fix s' assume "benchmark_run_baseline D m c s = Some s'"
  from benchmark_run_baseline_trace[OF this] obtain vs v1 v2 v3 where
    t: "trace s' = trace s @ baseline_setup_events m c
                         @ poll_events Jigsaw_DMA_STATUS_REG vs
                         @ baseline_report_events v1 v2 v3 (mem s')"
    by blast
  let ?t = "baseline_setup_events m c @ poll_events Jigsaw_DMA_STATUS_REG vs
            @ [GetCSR Jigsaw_DMA_STATUS_REG v1, Print ''DMA_STATUS_REG: '' [uint v1],
               GetCSR Jigsaw_DMA_CMD_REG v2, Print ''DMA_CMD_REG: '' [uint v2]]"
  have "trace s' = trace s @ ?t
                @ [GetCSR Jigsaw_COYOTE_DMA_TX_LEN_REG v3,
                   Print ''COYOTE_DMA_TX_LEN_REG: '' [uint v3]]
                @ map (\<lambda>i. Print ''%02x '' [uint (mem s' i)]) [0..<64]"
    by (simp add: t baseline_report_events_def)
  then show "\<exists>t v. trace s' = trace s @ t
                @ [GetCSR Jigsaw_COYOTE_DMA_TX_LEN_REG v,
                   Print ''COYOTE_DMA_TX_LEN_REG: '' [uint v]]
                @ map (\<lambda>i. Print ''%02x '' [uint (mem s' i)]) [0..<64]"
    by blast
next
  fix tx :: "u64 \<Rightarrow> u64"
  have one: "(1::u64) AND 1 = 1" by simp
  from prints_dma_dev[OF one, of tx m c]
  show "benchmark_run (dma_dev 1 tx) m c world0 \<noteq> None" by auto
  from prints_dma_dev[OF one, of tx m c]
  show "\<not> isl (the (benchmark_run (dma_dev 1 tx) m c world0))" by auto
  from prints_dma_dev[OF one, of tx m c] prints_dma_dev[OF one, of "\<lambda>n. n" m c]
  show "filter is_print (trace (projr (the (benchmark_run (dma_dev 1 tx) m c world0))))
            = butlast (filter is_print
                (trace (projr (the (benchmark_run (dma_dev 1 (\<lambda>n. n)) m c world0)))))
              @ [Print ''DMA TX Length: '' [uint (tx 1024)]]"
    by auto
qed

theorem tx_length_reported_witness:
  "benchmark_run (dma_dev 1 (\<lambda>n. 2048)) 0x10000 1 world0 \<noteq> None
   \<and> \<not> isl (the (benchmark_run (dma_dev 1 (\<lambda>n. 2048)) 0x10000 1 world0))
   \<and> (\<exists>t vs v. trace (projr (the (benchmark_run (dma_dev 1 (\<lambda>n. 2048)) 0x10000 1 world0)))
                 = trace world0 @ t
                   @ read_mmio_events (ucast DMA_TX_LEN_REG) vs v
                   @ [Print ''DMA TX Length: '' [uint v]])
   \<and> last (trace (projr (the (benchmark_run (dma_dev 1 (\<lambda>n. 2048)) 0x10000 1 world0))))
       = Print ''DMA TX Length: '' [2048]"
proof -
  have "(1::u64) AND 1 = 1" by simp
  from run_dma_dev[OF this, of "\<lambda>n. 2048" "0x10000" 1]
  obtain s' where e: "benchmark_run (dma_dev 1 (\<lambda>n. 2048)) 0x10000 1 world0 = Some (Inr s')"
    and t: "trace s' = configure_start_events 0x10000 1 ([], 0) ([], 0) ([], 0) ([], 0) 0x10000 1
                     [] ([], 0x10000 + 4096) [] ([], 1024) []
                   @ read_mmio_events (ucast DMA_STATUS_REG) [] 1
                   @ finish_events ([], 1) [] ([], 2048)"
    by blast
  from tx_length_reported [of "dma_dev 1 (\<lambda>n. 2048)" "0x10000" 1 world0,
      THEN conjunct1, rule_format, OF e]
  have "\<exists>t vs v. trace s' = trace world0 @ t
                   @ read_mmio_events (ucast DMA_TX_LEN_REG) vs v
                   @ [Print ''DMA TX Length: '' [uint v]]" .
  moreover have "last (trace s') = Print ''DMA TX Length: '' [2048]"
    by (simp add: t finish_events_def)
  ultimately show ?thesis using e by simp
qed

text \<open>
  C6 as stated fails: the engine is asked for 1024 bytes and reports 2048; the run
  returns, and its console lines hold the value 2048 and no word about the mismatch.
\<close>

theorem length_mismatch_counterexample:
  "benchmark_run (dma_dev 1 (\<lambda>n. 2048)) 0x10000 1 world0 \<noteq> None
   \<and> \<not> isl (the (benchmark_run (dma_dev 1 (\<lambda>n. 2048)) 0x10000 1 world0))
   \<and> regs (dev (projr (the (benchmark_run (dma_dev 1 (\<lambda>n. 2048)) 0x10000 1 world0))))
        (ucast DMA_LEN_REG) = 1024
   \<and> regs (dev (projr (the (benchmark_run (dma_dev 1 (\<lambda>n. 2048)) 0x10000 1 world0))))
        (ucast DMA_TX_LEN_REG) = 2048
   \<and> filter is_print (trace (projr (the (benchmark_run (dma_dev 1 (\<lambda>n. 2048)) 0x10000 1 world0))))
       = [Print ''DMA Source Address: 0x'' [0], Print ''DMA Destination Address: 0x'' [0],
          Print ''DMA TX Length: '' [0], Print ''DMA Status: '' [0],
          Print ''Starting H2D DMA Test...'' [], Print ''MMIO VADDR: 0x'' [65536],
          Print ''Reading MMIO VADDR: 0x'' [65536], Print ''Reading coyote PID: '' [1],
          Print ''Set DMA Source Address: 0x'' [69632],
          Print ''Reading DMA Source Address: 0x'' [69632],
          Print ''Set DMA Length: '' [1024], Print ''Reading DMA LEN: '' [1024],
          Print ''Started DMA (Cmd: 1)'' [], Print ''DMA Completed!'' [],
          Print ''DMA Status: '' [1], Print ''DMA TX Length: '' [2048]]"
proof -
  have one: "(1::u64) AND 1 = 1" by simp
  from run_dma_dev[OF one, of "\<lambda>n. 2048" "0x10000" 1]
  obtain s' where e: "benchmark_run (dma_dev 1 (\<lambda>n. 2048)) 0x10000 1 world0 = Some (Inr s')"
    and r: "regs (dev s') = (\<lambda>a. 0)(8 := 0x10000 + 4096, 24 := 1024, 0 := 1, 56 := 2048, 32 := 0)"
    by blast
  from prints_dma_dev[OF one, of "\<lambda>n. 2048" "0x10000" 1] e
  have p: "filter is_print (trace s')
       = [Print ''DMA Source Address: 0x'' [0], Print ''DMA Destination Address: 0x'' [0],
          Print ''DMA TX Length: '' [0], Print ''DMA Status: '' [0],
          Print ''Starting H2D DMA Test...'' [], Print ''MMIO VADDR: 0x'' [65536],
          Print ''Reading MMIO VADDR: 0x'' [65536], Print ''Reading coyote PID: '' [1],
          Print ''Set DMA Source Address: 0x'' [69632],
          Print ''Reading DMA Source Address: 0x'' [69632],
          Print ''Set DMA Length: '' [1024], Print ''Reading DMA LEN: '' [1024],
          Print ''Started DMA (Cmd: 1)'' [], Print ''DMA Completed!'' [],
          Print ''DMA Status: '' [1], Print ''DMA TX Length: '' [2048]]"
    by simp
  have "regs (dev s') (ucast DMA_LEN_REG) = 1024" "regs (dev s') (ucast DMA_TX_LEN_REG) = 2048"
    by (simp_all add: r dma_reg_defs)
  with e p show ?thesis by simp
qed




section \<open>Allocation failure\<close>

text \<open>
  C9, as the code has it: in the two jigsaw programs (baseline and indirect), when
  \<open>getMem\<close> returns the null pointer \<open>main\<close> throws a runtime error at once: the
  request for the buffer is the only thing that has happened, no register has been
  touched, the buffer has not been used, and nothing is retried.
\<close>

theorem allocation_failure_fatal:
  "main_minus_nw D 0 c s
     = Some (Inl (RuntimeError ''Could not allocate memory; exiting...'',
                  s\<lparr>trace := trace s @ [GetMem (16 * 1024) 0]\<rparr>))
   \<and> main_baseline D 0 c s
     = Some (Inl (RuntimeError ''Could not allocate memory; exiting...'',
                  s\<lparr>trace := trace s @ [GetMem (4 * 1024 * 1024) 0]\<rparr>))"
  by (simp add: main_minus_nw_def main_baseline_def getMem_def Let_def)

text \<open>
  C9 as stated fails for the AES host program, which tests neither of its two
  pointers. Called with \<open>--size 0\<close> and both allocations returning null, it goes on
  to \<open>ioSwitch\<close>, the two key registers and \<open>invoke\<close> on the null buffer, and reports
  success; with the default size and only the second allocation (\<open>rMem\<close>) returning
  null, it runs through the same hardware steps and returns normally.
\<close>

theorem allocation_unchecked_counterexample:
  "main_aes idle_cproc (Some 0) None 0 0 aes_world0
     = Inr (0, aes_world0\<lparr>trace :=
               [GetMem 0 0, GetMem 0 0, IoSwitch 0, SetCSR keyLow 0, SetCSR keyHigh 1,
                Invoke 0 0, Print ''Success: cipher text matches test vectors!'' []]\<rparr>)
   \<and> \<not> isl (main_aes idle_cproc None None 0x200000 0 aes_world0)
   \<and> take 6 (trace (final_world (main_aes idle_cproc None None 0x200000 0 aes_world0)))
       = [GetMem 1 0x200000, GetMem 1 0, IoSwitch 0, SetCSR keyLow 0, SetCSR keyHigh 1,
          Invoke 0x200000 65536]"
  apply (intro conjI)
    apply (simp add: main_aes_def idle_cproc_def aes_world0_def Let_def getMem_def
      ioSwitch_def cproc_setCSR_def invoke_def print_def fill_plain_def check_cipher_def)
   apply (simp add: main_aes_def idle_cproc_def aes_world0_def Let_def getMem_def
      ioSwitch_def cproc_setCSR_def invoke_def print_def defSize_def)
  apply (simp add: main_aes_def idle_cproc_def aes_world0_def Let_def getMem_def
      ioSwitch_def cproc_setCSR_def invoke_def print_def defSize_def final_world_def)
  done

end
